theory Spec2Isabelle
  imports Complex_Main
begin

section \<open>Strings as the JavaScript code uses them\<close>

text \<open>
  JavaScript strings are modelled as \<^typ>\<open>string\<close>, one \<^typ>\<open>char\<close> per code unit
  (the sources only inspect ASCII letters, digits and white space).
\<close>

definition is_digit :: "char \<Rightarrow> bool" where
  "is_digit c = (c \<in> set ''0123456789'')"

text \<open>\<^verbatim>\<open>s.replace(/\D/g, '')\<close>: every character that is not a decimal digit is dropped.\<close>

definition strip_non_digits :: "string \<Rightarrow> string" where
  "strip_non_digits s = filter is_digit s"

text \<open>\<^verbatim>\<open>s.slice(0, n)\<close> and \<^verbatim>\<open>s.slice(-n)\<close> for a non-negative \<open>n\<close>.\<close>

definition slice_to :: "nat \<Rightarrow> string \<Rightarrow> string" where
  "slice_to n s = take n s"

definition slice_last :: "nat \<Rightarrow> string \<Rightarrow> string" where
  "slice_last n s = drop (length s - n) s"

text \<open>\<^verbatim>\<open>toLowerCase\<close> and \<^verbatim>\<open>toUpperCase\<close>, on the ASCII letters.\<close>

definition to_lower :: "char \<Rightarrow> char" where
  "to_lower c =
     (if c \<in> set ''ABCDEFGHIJKLMNOPQRSTUVWXYZ'' then char_of (of_char c + (32::nat)) else c)"

definition to_upper :: "char \<Rightarrow> char" where
  "to_upper c =
     (if c \<in> set ''abcdefghijklmnopqrstuvwxyz'' then char_of (of_char c - (32::nat)) else c)"

definition toLowerCase :: "string \<Rightarrow> string" where
  "toLowerCase s = map to_lower s"

text \<open>\<^verbatim>\<open>s.charAt(0).toUpperCase() + s.slice(1)\<close>\<close>

definition capitalize :: "string \<Rightarrow> string" where
  "capitalize s = (case s of [] \<Rightarrow> [] | c # cs \<Rightarrow> to_upper c # cs)"

text \<open>\<^verbatim>\<open>s.includes(pat)\<close>: \<open>pat\<close> occurs in \<open>s\<close> as a contiguous run.\<close>

primrec str_includes :: "string \<Rightarrow> string \<Rightarrow> bool" where
  "str_includes [] pat = (pat = [])"
| "str_includes (c # cs) pat = (take (length pat) (c # cs) = pat \<or> str_includes cs pat)"

text \<open>White space (\<^verbatim>\<open>\s\<close>), line terminators and word characters (\<^verbatim>\<open>\w\<close>).\<close>

definition is_space :: "char \<Rightarrow> bool" where
  "is_space c = (c \<in> set [CHR 0x09, CHR 0x0A, CHR 0x0B, CHR 0x0C, CHR 0x0D, CHR 0x20, CHR 0xA0])"

definition is_line_terminator :: "char \<Rightarrow> bool" where
  "is_line_terminator c = (c \<in> set [CHR 0x0A, CHR 0x0D])"

definition is_word_char :: "char \<Rightarrow> bool" where
  "is_word_char c =
     (c \<in> set ''abcdefghijklmnopqrstuvwxyzABCDEFGHIJKLMNOPQRSTUVWXYZ0123456789_'')"

text \<open>\<^verbatim>\<open>s.replace(/\s+/g, '')\<close>\<close>

definition strip_spaces :: "string \<Rightarrow> string" where
  "strip_spaces s = filter (\<lambda>c. \<not> is_space c) s"

subsection \<open>The regular expressions of the card-network table\<close>

text \<open>
  The patterns of \<^verbatim>\<open>CARD_NETWORK_PATTERNS\<close> are built from literal text, \<^verbatim>\<open>\s\<close>,
  \<^verbatim>\<open>.\<close>, \<^verbatim>\<open>\b\<close>, sequencing and the greedy \<^verbatim>\<open>*\<close> and \<^verbatim>\<open>+\<close>, all with
  the \<^verbatim>\<open>i\<close> flag. A position of the match is the character before it, if any, and the
  text still to read; \<open>rx_after r p\<close> lists the positions at which a match of \<open>r\<close>
  that starts at \<open>p\<close> can end.
\<close>

datatype rx =
  Str string
  | Space
  | AnyChar
  | WordBoundary
  | Seq rx rx
  | Star rx

type_synonym position = "char option \<times> string"

definition step_char :: "(char \<Rightarrow> bool) \<Rightarrow> position \<Rightarrow> position list" where
  "step_char ok p = (case snd p of [] \<Rightarrow> [] | c # cs \<Rightarrow> if ok c then [(Some c, cs)] else [])"

text \<open>Literal text is compared character by character, without regard to case.\<close>

fun step_str :: "string \<Rightarrow> position \<Rightarrow> position list" where
  "step_str [] p = [p]"
| "step_str (c # cs) (prev, []) = []"
| "step_str (c # cs) (prev, x # xs) =
     (if to_lower x = to_lower c then step_str cs (Some x, xs) else [])"

definition at_boundary :: "position \<Rightarrow> bool" where
  "at_boundary p =
     ((case fst p of None \<Rightarrow> False | Some c \<Rightarrow> is_word_char c)
      \<noteq> (case snd p of [] \<Rightarrow> False | c # _ \<Rightarrow> is_word_char c))"

text \<open>The positions reached by at most \<open>n\<close> repetitions of a step.\<close>

fun repeat_step :: "nat \<Rightarrow> (position \<Rightarrow> position list) \<Rightarrow> position list \<Rightarrow> position list" where
  "repeat_step 0 f ps = ps"
| "repeat_step (Suc n) f ps = ps @ repeat_step n f (concat (map f ps))"

primrec rx_after :: "rx \<Rightarrow> position \<Rightarrow> position list" where
  "rx_after (Str s) = step_str s"
| "rx_after Space = step_char is_space"
| "rx_after AnyChar = step_char (\<lambda>c. \<not> is_line_terminator c)"
| "rx_after WordBoundary = (\<lambda>p. if at_boundary p then [p] else [])"
| "rx_after (Seq a b) = (\<lambda>p. concat (map (rx_after b) (rx_after a p)))"
| "rx_after (Star a) = (\<lambda>p. repeat_step (length (snd p)) (rx_after a) [p])"

text \<open>\<^verbatim>\<open>pattern.test(s)\<close>: a match starts somewhere in \<open>s\<close>.\<close>

fun rx_test_from :: "rx \<Rightarrow> char option \<Rightarrow> string \<Rightarrow> bool" where
  "rx_test_from r prev [] = (rx_after r (prev, []) \<noteq> [])"
| "rx_test_from r prev (c # cs) =
     (rx_after r (prev, c # cs) \<noteq> [] \<or> rx_test_from r (Some c) cs)"

definition rx_test :: "rx \<Rightarrow> string \<Rightarrow> bool" where
  "rx_test r s = rx_test_from r None s"

definition seqs :: "rx list \<Rightarrow> rx" where
  "seqs rs = foldr Seq rs (Str [])"

definition word :: "string \<Rightarrow> rx" where
  "word s = seqs [WordBoundary, Str s, WordBoundary]"

section \<open>cardUtils: maskCardNumber\<close>

text \<open>
  \<^verbatim>\<open>
  function maskCardNumber(cardNumber) {
    const clean = cardNumber.replace(/\D/g, '');
    if (clean.length < 10) return clean;
    const firstSix = clean.slice(0, 6);
    const lastFour = clean.slice(-4);
    const middleLength = clean.length - 10;
    return firstSix + '*'.repeat(middleLength) + lastFour;
  }
  \<close>
\<close>

definition maskCardNumber :: "string \<Rightarrow> string" where
  "maskCardNumber cardNumber =
     (let clean = strip_non_digits cardNumber in
      if length clean < 10 then clean
      else
        let firstSix = slice_to 6 clean;
            lastFour = slice_last 4 clean;
            middleLength = length clean - 10
        in firstSix @ replicate middleLength (CHR ''*'') @ lastFour)"

section \<open>Data model\<close>

text \<open>
  The Prisma entities, with the fields the modelled operations read or write. Identifiers
  are natural numbers, instants are integers (milliseconds) and a nullable column is an
  \<^typ>\<open>'a option\<close>. Amounts of money are JavaScript numbers in the source, which are
  IEEE 754 doubles. The model holds a finite double as the rational number it denotes;
  where the source computes with two of them, the model rounds the exact result to a
  double (\<open>to_double\<close> below).
\<close>

type_synonym money = rat
type_synonym instant = int

datatype PurchaseStatus =
  MONITORING | PRICE_DROP_DETECTED | CLAIM_ELIGIBLE | CLAIM_FILED
  | CLAIM_APPROVED | CLAIM_DENIED | PURCHASE_EXPIRED

datatype ClaimStatus =
  DRAFT | READY_TO_FILE | PENDING | EMAIL_SENT | FILED | PENDING_REVIEW
  | ADDITIONAL_INFO_NEEDED | APPROVED | DENIED | MONEY_RECEIVED | EXPIRED

record user =
  u_id :: nat
  u_email :: string
  u_name :: "string option"
  priceDropThreshold :: "money option"
  gmailAccessToken :: "string option"

record creditCard =
  cc_id :: nat
  cc_userId :: nat
  lastFour :: string
  network :: string
  issuer :: string
  nickname :: string
  cardType :: string
  protectionDays :: nat
  maxClaimAmount :: money
  claimMethod :: string
  claimEmail :: "string option"
  autoClaimEnabled :: bool

record purchase =
  p_id :: nat
  p_userId :: nat
  productName :: string
  retailer :: string
  purchasePrice :: money
  currentPrice :: "money option"
  lowestPrice :: "money option"
  lowestPriceDate :: "instant option"
  purchaseDate :: instant
  retailerOrderId :: "string option"
  productUrl :: "string option"
  sourceType :: string
  sourceEmailId :: "string option"
  creditCardId :: "nat option"
  protectionEnds :: "instant option"
  p_status :: PurchaseStatus

record priceObservation =
  ph_purchaseId :: nat
  ph_price :: money
  ph_checkedAt :: instant

record historyEntry =
  h_status :: string
  h_timestamp :: instant
  h_notes :: string

record claim =
  c_id :: nat
  c_userId :: nat
  c_purchaseId :: nat
  c_creditCardId :: nat
  originalPrice :: money
  newPrice :: "money option"
  priceDifference :: money
  c_status :: ClaimStatus
  statusHistory :: "historyEntry list"
  responseNotes :: "string option"
  autoFiled :: bool
  claimNumber :: "string option"
  claimEmailTo :: "string option"
  claimEmailMessageId :: "string option"
  proofDocumentUrl :: "string option"
  priceScreenshotUrl :: "string option"
  filedAt :: "instant option"

record notification =
  n_userId :: nat
  n_type :: string
  n_title :: string
  n_purchaseId :: "nat option"
  n_claimId :: "nat option"
  n_creditCardId :: "nat option"

record db =
  users :: "user list"
  creditCards :: "creditCard list"
  purchases :: "purchase list"
  priceHistory :: "priceObservation list"
  claims :: "claim list"
  notifications :: "notification list"

definition empty_db :: db where
  "empty_db = \<lparr>users = [], creditCards = [], purchases = [], priceHistory = [],
                claims = [], notifications = []\<rparr>"

subsection \<open>Queries and updates\<close>

text \<open>\<^verbatim>\<open>findUnique({ where: { id } })\<close> on each table.\<close>

definition find_user :: "db \<Rightarrow> nat \<Rightarrow> user option" where
  "find_user d i = find (\<lambda>u. u_id u = i) (users d)"

definition find_card :: "db \<Rightarrow> nat \<Rightarrow> creditCard option" where
  "find_card d i = find (\<lambda>c. cc_id c = i) (creditCards d)"

definition find_purchase :: "db \<Rightarrow> nat \<Rightarrow> purchase option" where
  "find_purchase d i = find (\<lambda>p. p_id p = i) (purchases d)"

definition find_claim :: "db \<Rightarrow> nat \<Rightarrow> claim option" where
  "find_claim d i = find (\<lambda>c. c_id c = i) (claims d)"

text \<open>\<^verbatim>\<open>update({ where: { id }, data })\<close>: the row with that id is rewritten.\<close>

definition update_purchase :: "nat \<Rightarrow> (purchase \<Rightarrow> purchase) \<Rightarrow> db \<Rightarrow> db" where
  "update_purchase i f d =
     d\<lparr>purchases := map (\<lambda>p. if p_id p = i then f p else p) (purchases d)\<rparr>"

definition update_claim :: "nat \<Rightarrow> (claim \<Rightarrow> claim) \<Rightarrow> db \<Rightarrow> db" where
  "update_claim i f d =
     d\<lparr>claims := map (\<lambda>c. if c_id c = i then f c else c) (claims d)\<rparr>"

text \<open>A created row gets an identifier no row of its table has.\<close>

definition fresh_id :: "nat list \<Rightarrow> nat" where
  "fresh_id ids = Suc (fold max ids 0)"

definition add_notification :: "notification \<Rightarrow> db \<Rightarrow> db" where
  "add_notification n d = d\<lparr>notifications := notifications d @ [n]\<rparr>"

definition add_observation :: "priceObservation \<Rightarrow> db \<Rightarrow> db" where
  "add_observation h d = d\<lparr>priceHistory := priceHistory d @ [h]\<rparr>"

subsection \<open>JavaScript truthiness of numbers and strings\<close>

text \<open>\<^verbatim>\<open>a || b\<close> on nullable numbers: \<open>null\<close> and \<open>0\<close> are falsy.\<close>

definition num_truthy :: "money option \<Rightarrow> bool" where
  "num_truthy a = (case a of None \<Rightarrow> False | Some x \<Rightarrow> x \<noteq> 0)"

definition num_or :: "money option \<Rightarrow> money option \<Rightarrow> money option" where
  "num_or a b = (if num_truthy a then a else b)"

text \<open>A nullable number in arithmetic: \<open>null\<close> converts to \<open>0\<close>.\<close>

definition to_number :: "money option \<Rightarrow> money" where
  "to_number a = (case a of None \<Rightarrow> 0 | Some x \<Rightarrow> x)"

definition str_truthy :: "string option \<Rightarrow> bool" where
  "str_truthy a = (case a of None \<Rightarrow> False | Some s \<Rightarrow> s \<noteq> [])"

subsection \<open>JavaScript arithmetic on numbers\<close>

text \<open>
  The result of an arithmetic operation on doubles is the exact result rounded to the
  nearest double, ties to the even significand. A double has a significand of 53 binary
  digits; the exponent of a normal double is at least \<open>-1022\<close>, and below that the
  spacing of the subnormal doubles stays \<^verbatim>\<open>2^-1074\<close>. NaN, the infinities and the sign of
  zero are not modelled: the operands are stored prices, far below the overflow
  threshold.
\<close>

text \<open>The number of binary digits of a positive integer.\<close>

function bit_length :: "int \<Rightarrow> int" where
  "bit_length n = (if n \<le> 0 then 0 else 1 + bit_length (n div 2))"
  by pat_completeness auto

termination
  by (relation "measure nat") auto

declare bit_length.simps [simp del]

definition pow2 :: "int \<Rightarrow> rat" where
  "pow2 k = (if 0 \<le> k then 2 ^ nat k else 1 / 2 ^ nat (- k))"

text \<open>For a positive \<open>x\<close>, the exponent \<open>e\<close> with \<open>pow2 e \<le> x < pow2 (e + 1)\<close>.\<close>

definition binary_exponent :: "rat \<Rightarrow> int" where
  "binary_exponent x =
     (let (p, q) = quotient_of x;
          k = bit_length p - bit_length q
      in if pow2 k \<le> x then k else k - 1)"

definition round_half_even :: "rat \<Rightarrow> int" where
  "round_half_even x =
     (let n = \<lfloor>x\<rfloor>; f = x - of_int n
      in if f < 1 / 2 then n
         else if 1 / 2 < f then n + 1
         else if even n then n else n + 1)"

definition to_double :: "rat \<Rightarrow> rat" where
  "to_double x =
     (if x = 0 then 0
      else
        let a = \<bar>x\<bar>;
            e = max (binary_exponent a) (- 1022);
            ulp = pow2 (e - 52);
            m = round_half_even (a / ulp)
        in sgn x * of_int m * ulp)"

text \<open>\<^verbatim>\<open>a - b\<close> on two numbers.\<close>

definition js_sub :: "money \<Rightarrow> money \<Rightarrow> money" where
  "js_sub a b = to_double (a - b)"

section \<open>priceMonitor: checkPriceForPurchase\<close>

text \<open>
  \<^verbatim>\<open>scrapePrice\<close> drives a browser or a price API; what it reads is an input of the
  model. Each of its paths returns \<open>null\<close> or a number that passed a positivity guard
  (\<^verbatim>\<open>if (!isNaN(price) && price > 0) return price; return null\<close> in parsePrice,
  \<^verbatim>\<open>latestPrice > 0 ? latestPrice / 100 : null\<close> for the API), which is kept here.
\<close>

definition scrapePrice :: "money option \<Rightarrow> money option" where
  "scrapePrice reading =
     (case reading of None \<Rightarrow> None | Some price \<Rightarrow> if price > 0 then Some price else None)"

datatype check_result =
  CheckFailed string
  | CheckDone "money option" money money bool

text \<open>
  \<^verbatim>\<open>
  async checkPriceForPurchase(purchaseId) {
    const purchase = await prisma.purchase.findUnique({ ..., include: { user: true, creditCard: true } });
    if (!purchase || !purchase.productUrl) return { success: false, error: 'No product URL' };
    const currentPrice = await this.scrapePrice(purchase.productUrl);
    if (currentPrice === null) return { success: false, error: 'Could not fetch price' };
    await prisma.priceHistory.create({ data: { purchaseId, price: currentPrice, ... } });
    const priceDrop = purchase.purchasePrice - currentPrice;
    const updateData = { currentPrice };
    if (!purchase.lowestPrice || currentPrice < purchase.lowestPrice) {
      updateData.lowestPrice = currentPrice;
      updateData.lowestPriceDate = new Date();
    }
    const isWithinProtection = purchase.protectionEnds && purchase.protectionEnds > new Date();
    const meetsThreshold = priceDrop >= (purchase.user?.priceDropThreshold || 5);
    if (priceDrop > 0 && meetsThreshold) {
      updateData.status = isWithinProtection ? 'CLAIM_ELIGIBLE' : 'PRICE_DROP_DETECTED';
      await prisma.notification.create({ data: { userId: purchase.userId, type: 'PRICE_DROP', ... } });
    }
    await prisma.purchase.update({ where: { id: purchaseId }, data: updateData });
    return { success: true, previousPrice: purchase.currentPrice, currentPrice, priceDrop, ...,
             isEligible: isWithinProtection && meetsThreshold };
  }
  \<close>
\<close>

definition userThreshold :: "db \<Rightarrow> purchase \<Rightarrow> money" where
  "userThreshold d p =
     (case find_user d (p_userId p) of
        None \<Rightarrow> 5
      | Some u \<Rightarrow> (if num_truthy (priceDropThreshold u) then to_number (priceDropThreshold u) else 5))"

definition isWithinProtection :: "instant \<Rightarrow> purchase \<Rightarrow> bool" where
  "isWithinProtection now p =
     (case protectionEnds p of None \<Rightarrow> False | Some ends \<Rightarrow> ends > now)"

definition isNewLowest :: "purchase \<Rightarrow> money \<Rightarrow> bool" where
  "isNewLowest p cur =
     (\<not> num_truthy (lowestPrice p) \<or> cur < to_number (lowestPrice p))"

definition priceDropNotification :: "purchase \<Rightarrow> notification" where
  "priceDropNotification p =
     \<lparr>n_userId = p_userId p, n_type = ''PRICE_DROP'', n_title = ''Price Drop Detected!'',
      n_purchaseId = Some (p_id p), n_claimId = None, n_creditCardId = None\<rparr>"

definition checkPriceForPurchase ::
  "instant \<Rightarrow> money option \<Rightarrow> db \<Rightarrow> nat \<Rightarrow> check_result \<times> db" where
  "checkPriceForPurchase now reading d purchaseId =
     (case find_purchase d purchaseId of
        None \<Rightarrow> (CheckFailed ''No product URL'', d)
      | Some p \<Rightarrow>
          if \<not> str_truthy (productUrl p) then (CheckFailed ''No product URL'', d)
          else
            (case scrapePrice reading of
               None \<Rightarrow> (CheckFailed ''Could not fetch price'', d)
             | Some cur \<Rightarrow>
                 let d1 = add_observation
                            \<lparr>ph_purchaseId = purchaseId, ph_price = cur, ph_checkedAt = now\<rparr> d;
                     priceDrop = js_sub (purchasePrice p) cur;
                     setLowest = (if isNewLowest p cur
                                  then (\<lambda>q. q\<lparr>lowestPrice := Some cur, lowestPriceDate := Some now\<rparr>)
                                  else (\<lambda>q. q));
                     inWindow = isWithinProtection now p;
                     meetsThreshold = (priceDrop \<ge> userThreshold d p);
                     notify = (priceDrop > 0 \<and> meetsThreshold);
                     setStatus = (if notify
                                  then (\<lambda>q. q\<lparr>p_status := (if inWindow then CLAIM_ELIGIBLE
                                                              else PRICE_DROP_DETECTED)\<rparr>)
                                  else (\<lambda>q. q));
                     d2 = (if notify then add_notification (priceDropNotification p) d1 else d1);
                     d3 = update_purchase purchaseId
                            (\<lambda>q. setStatus (setLowest (q\<lparr>currentPrice := Some cur\<rparr>))) d2
                 in (CheckDone (currentPrice p) cur priceDrop (inWindow \<and> meetsThreshold), d3)))"

text \<open>A run of price checks on one purchase, each with its instant and its reading.\<close>

fun run_checks :: "db \<Rightarrow> nat \<Rightarrow> (instant \<times> money option) list \<Rightarrow> db" where
  "run_checks d purchaseId [] = d"
| "run_checks d purchaseId ((now, reading) # rest) =
     run_checks (snd (checkPriceForPurchase now reading d purchaseId)) purchaseId rest"

text \<open>The prices of the observations recorded for a purchase, oldest first.\<close>

definition observations :: "db \<Rightarrow> nat \<Rightarrow> money list" where
  "observations d purchaseId =
     map ph_price (filter (\<lambda>h. ph_purchaseId h = purchaseId) (priceHistory d))"

section \<open>emailParser: the Card Matcher\<close>

text \<open>
  \<^verbatim>\<open>
  const CARD_NETWORK_PATTERNS = {
    visa: [/\bvisa\b/i, /visa.*card/i, /card.*visa/i],
    mastercard: [/\bmastercard\b/i, /\bmaster\s*card\b/i, /mc\s+card/i],
    amex: [/\bamex\b/i, /american\s*express/i, /\bamericanexpress\b/i],
    discover: [/\bdiscover\b/i, /discover.*card/i],
    chase: [/\bchase\b/i, /chase.*card/i],
    citi: [/\bciti\b/i, /\bcitibank\b/i, /citi.*card/i],
    capitalone: [/capital\s*one/i, /\bcapitalone\b/i],
    wellsfargo: [/wells\s*fargo/i, /\bwellsfargo\b/i]
  };
  \<close>
\<close>

definition CARD_NETWORK_PATTERNS :: "(string \<times> rx list) list" where
  "CARD_NETWORK_PATTERNS =
     [(''visa'', [word ''visa'',
                  seqs [Str ''visa'', Star AnyChar, Str ''card''],
                  seqs [Str ''card'', Star AnyChar, Str ''visa'']]),
      (''mastercard'', [word ''mastercard'',
                        seqs [WordBoundary, Str ''master'', Star Space, Str ''card'', WordBoundary],
                        seqs [Str ''mc'', Space, Star Space, Str ''card'']]),
      (''amex'', [word ''amex'',
                  seqs [Str ''american'', Star Space, Str ''express''],
                  word ''americanexpress'']),
      (''discover'', [word ''discover'',
                      seqs [Str ''discover'', Star AnyChar, Str ''card'']]),
      (''chase'', [word ''chase'',
                   seqs [Str ''chase'', Star AnyChar, Str ''card'']]),
      (''citi'', [word ''citi'',
                  word ''citibank'',
                  seqs [Str ''citi'', Star AnyChar, Str ''card'']]),
      (''capitalone'', [seqs [Str ''capital'', Star Space, Str ''one''],
                        word ''capitalone'']),
      (''wellsfargo'', [seqs [Str ''wells'', Star Space, Str ''fargo''],
                        word ''wellsfargo''])]"

text \<open>
  \<^verbatim>\<open>
  const DEFAULT_PROTECTION_DAYS = {
    amex: 90, citi: 60, chase: 90, discover: 90, capitalone: 60,
    visa: 90, mastercard: 60, default: 90
  };
  \<close>
\<close>

definition DEFAULT_PROTECTION_DAYS :: "(string \<times> nat) list" where
  "DEFAULT_PROTECTION_DAYS =
     [(''amex'', 90), (''citi'', 60), (''chase'', 90), (''discover'', 90),
      (''capitalone'', 60), (''visa'', 90), (''mastercard'', 60), (''default'', 90)]"

text \<open>
  \<^verbatim>\<open>
  detectCardNetwork(body) {
    for (const [network, patterns] of Object.entries(CARD_NETWORK_PATTERNS))
      for (const pattern of patterns)
        if (pattern.test(body)) return network;
    return null;
  }
  getProtectionDays(network) {
    return DEFAULT_PROTECTION_DAYS[network] || DEFAULT_PROTECTION_DAYS.default;
  }
  \<close>
\<close>

definition detectCardNetwork :: "string \<Rightarrow> string option" where
  "detectCardNetwork body =
     map_option fst (find (\<lambda>(network, patterns). \<exists>r \<in> set patterns. rx_test r body)
                       CARD_NETWORK_PATTERNS)"

definition getProtectionDays :: "string option \<Rightarrow> nat" where
  "getProtectionDays net =
     (case (case net of None \<Rightarrow> None | Some n \<Rightarrow> map_of DEFAULT_PROTECTION_DAYS n) of
        None \<Rightarrow> 90
      | Some days \<Rightarrow> if days = 0 then 90 else days)"

text \<open>
  \<^verbatim>\<open>
  async matchCardToUser(userId, cardLast4, body = '') {
    if (!cardLast4) return null;
    const userCards = await prisma.creditCard.findMany({ where: { userId }, ... });
    const matchingCard = userCards.find(card => card.lastFour === cardLast4);
    if (matchingCard) return matchingCard;
    const detectedNetwork = this.detectCardNetwork(body);
    const protectionDays = this.getProtectionDays(detectedNetwork);
    let network = 'unknown';
    let issuer = 'Unknown';
    if (detectedNetwork) {
      if (['visa', 'mastercard', 'amex', 'discover'].includes(detectedNetwork)) {
        network = detectedNetwork;
        issuer = detectedNetwork.charAt(0).toUpperCase() + detectedNetwork.slice(1);
        if (detectedNetwork === 'amex') issuer = 'American Express';
      } else {
        issuer = detectedNetwork.charAt(0).toUpperCase() + detectedNetwork.slice(1);
        if (detectedNetwork === 'capitalone') issuer = 'Capital One';
        if (detectedNetwork === 'wellsfargo') issuer = 'Wells Fargo';
      }
    }
    let cardType = 'OTHER';
    const networkToCardType = { visa: 'VISA', mastercard: 'MASTERCARD', amex: 'AMEX', discover: 'DISCOVER' };
    if (detectedNetwork && networkToCardType[detectedNetwork]) cardType = networkToCardType[detectedNetwork];
    try {
      const newCard = await prisma.creditCard.create({ data: {
          userId, lastFour: cardLast4, network: network, issuer: issuer,
          nickname: `Auto-detected Card (${cardLast4})`, cardType: cardType,
          protectionDays: protectionDays, claimMethod: 'EMAIL', autoClaimEnabled: true } });
      await prisma.notification.create({ data: { userId, type: 'SYSTEM',
          title: 'New Card Auto-Detected', ..., data: { creditCardId: newCard.id } } });
      return newCard;
    } catch (error) { return null; }
  }
  \<close>
  The data passed to \<^verbatim>\<open>create\<close> names neither \<^verbatim>\<open>maxClaimAmount\<close> nor
  \<^verbatim>\<open>claimEmail\<close>: the stored row takes the column defaults of the database schema,
  which is not among the sources. The default of \<^verbatim>\<open>maxClaimAmount\<close> is the parameter
  \<open>schemaMaxClaim\<close>; \<open>persisted\<close> tells whether \<^verbatim>\<open>create\<close> succeeds.
\<close>

definition detectedIssuer :: "string option \<Rightarrow> string" where
  "detectedIssuer detected =
     (case detected of
        None \<Rightarrow> ''Unknown''
      | Some n \<Rightarrow>
          if n \<in> set [''visa'', ''mastercard'', ''amex'', ''discover'']
          then (if n = ''amex'' then ''American Express'' else capitalize n)
          else (if n = ''wellsfargo'' then ''Wells Fargo''
                else if n = ''capitalone'' then ''Capital One''
                else capitalize n))"

definition detectedNetworkName :: "string option \<Rightarrow> string" where
  "detectedNetworkName detected =
     (case detected of
        None \<Rightarrow> ''unknown''
      | Some n \<Rightarrow> if n \<in> set [''visa'', ''mastercard'', ''amex'', ''discover''] then n
                  else ''unknown'')"

definition detectedCardType :: "string option \<Rightarrow> string" where
  "detectedCardType detected =
     (case (case detected of
              None \<Rightarrow> None
            | Some n \<Rightarrow> map_of [(''visa'', ''VISA''), (''mastercard'', ''MASTERCARD''),
                                (''amex'', ''AMEX''), (''discover'', ''DISCOVER'')] n) of
        None \<Rightarrow> ''OTHER''
      | Some t \<Rightarrow> t)"

definition matchCardToUser ::
  "bool \<Rightarrow> money \<Rightarrow> nat \<Rightarrow> string option \<Rightarrow> string \<Rightarrow> db \<Rightarrow> creditCard option \<times> db" where
  "matchCardToUser persisted schemaMaxClaim userId cardLast4 body d =
     (case cardLast4 of
        None \<Rightarrow> (None, d)
      | Some l4 \<Rightarrow>
          if l4 = [] then (None, d)
          else
            let userCards = filter (\<lambda>c. cc_userId c = userId) (creditCards d) in
            (case find (\<lambda>c. lastFour c = l4) userCards of
               Some matchingCard \<Rightarrow> (Some matchingCard, d)
             | None \<Rightarrow>
                 let detectedNetwork = detectCardNetwork body;
                     days = getProtectionDays detectedNetwork;
                     newCard =
                       \<lparr>cc_id = fresh_id (map cc_id (creditCards d)),
                        cc_userId = userId,
                        lastFour = l4,
                        network = detectedNetworkName detectedNetwork,
                        issuer = detectedIssuer detectedNetwork,
                        nickname = ''Auto-detected Card ('' @ l4 @ '')'',
                        cardType = detectedCardType detectedNetwork,
                        protectionDays = days,
                        maxClaimAmount = schemaMaxClaim,
                        claimMethod = ''EMAIL'',
                        claimEmail = None,
                        autoClaimEnabled = True\<rparr>
                 in if \<not> persisted then (None, d)
                    else
                      (Some newCard,
                       add_notification
                         \<lparr>n_userId = userId, n_type = ''SYSTEM'',
                          n_title = ''New Card Auto-Detected'',
                          n_purchaseId = None, n_claimId = None,
                          n_creditCardId = Some (cc_id newCard)\<rparr>
                         (d\<lparr>creditCards := creditCards d @ [newCard]\<rparr>))))"

section \<open>emailParser: purchase extraction\<close>

subsection \<open>The deterministic strategy\<close>

text \<open>
  The sender and subject patterns of \<^verbatim>\<open>RETAILER_PATTERNS\<close>, in the order of the table
  (its regular expressions are applied to the body by the regex layer, below).
\<close>

definition RETAILER_PATTERNS :: "(string \<times> string list \<times> string list) list" where
  "RETAILER_PATTERNS =
     [(''amazon'',
         [''auto-confirm@amazon.com'', ''shipment-tracking@amazon.com'', ''digital-no-reply@amazon.com''],
         [''Your Amazon.com order'', ''Your order has shipped'', ''Your Amazon order'']),
      (''bestbuy'',
         [''BestBuyInfo@emailinfo.bestbuy.com'', ''noreply@bestbuy.com''],
         [''Your order has been received'', ''Order Confirmation'', ''Thanks for your order'']),
      (''walmart'',
         [''help@walmart.com'', ''orders@walmart.com''],
         [''Your Walmart.com order'', ''Order confirmation'', ''Thanks for your order'']),
      (''target'',
         [''orders@target.com'', ''noreply@target.com''],
         [''Your Target order'', ''Order confirmation'', ''Thanks for shopping'']),
      (''costco'',
         [''orders@costco.com'', ''noreply@costco.com''],
         [''Order Confirmation'', ''Your Costco.com order'']),
      (''newegg'',
         [''info@newegg.com'', ''orders@newegg.com''],
         [''Order Confirmation'', ''Your Newegg.com order'']),
      (''homedepot'',
         [''reply@homedepot.com'', ''orders@homedepot.com''],
         [''Order Confirmation'', ''Your Home Depot order'']),
      (''lowes'',
         [''Lowes@e.lowes.com'', ''orders@lowes.com''],
         [''Order Confirmation'', ''Your Lowes order''])]"

text \<open>
  \<^verbatim>\<open>
  for (const [name, config] of Object.entries(RETAILER_PATTERNS)) {
    const fromMatch = config.fromPatterns.some(pattern => fromAddress.includes(pattern.toLowerCase()));
    const subjectMatch = config.subjectPatterns.some(pattern =>
      subject.toLowerCase().includes(pattern.toLowerCase()));
    if (fromMatch && subjectMatch) { retailer = name; retailerConfig = config; break; }
  }
  \<close>
\<close>

definition identifyRetailer :: "string \<Rightarrow> string \<Rightarrow> string option" where
  "identifyRetailer fromAddress subject =
     map_option fst
       (find (\<lambda>(name, fromPatterns, subjectPatterns).
                (\<exists>pattern \<in> set fromPatterns. str_includes fromAddress (toLowerCase pattern))
                \<and> (\<exists>pattern \<in> set subjectPatterns.
                      str_includes (toLowerCase subject) (toLowerCase pattern)))
          RETAILER_PATTERNS)"

record parsedEmail =
  pe_from :: "string option"
  pe_subject :: "string option"
  pe_html :: "string option"
  pe_text :: "string option"
  pe_date :: "instant option"

text \<open>
  What the regular expressions of the retailer's configuration and the helpers
  \<^verbatim>\<open>extractProductName\<close>, \<^verbatim>\<open>extractCardLast4\<close> and \<^verbatim>\<open>extractProductUrl\<close>
  read from the body: inputs of the model, one record per retailer.
\<close>

record bodyScan =
  priceMatches :: "money list"
  orderIdMatch :: "string option"
  scannedProductName :: "string option"
  scannedCardLast4 :: "string option"
  scannedProductUrl :: "string option"

text \<open>\<^verbatim>\<open>a || b\<close> on a nullable string with a string default.\<close>

definition str_or :: "string option \<Rightarrow> string \<Rightarrow> string" where
  "str_or a b = (case a of None \<Rightarrow> b | Some s \<Rightarrow> if s = [] then b else s)"

definition day_ms :: int where
  "day_ms = 24 * 60 * 60 * 1000"

text \<open>\<^verbatim>\<open>findFirst({ where: { userId, sourceEmailId: emailId } })\<close>\<close>

definition find_by_source_email :: "db \<Rightarrow> nat \<Rightarrow> string \<Rightarrow> purchase option" where
  "find_by_source_email d userId emailId =
     find (\<lambda>p. p_userId p = userId \<and> sourceEmailId p = Some emailId) (purchases d)"

definition create_purchase :: "purchase \<Rightarrow> db \<Rightarrow> db" where
  "create_purchase p d = d\<lparr>purchases := purchases d @ [p]\<rparr>"

definition newPurchaseNotification :: "nat \<Rightarrow> nat \<Rightarrow> notification" where
  "newPurchaseNotification userId purchaseId =
     \<lparr>n_userId = userId, n_type = ''SYSTEM'', n_title = ''New Purchase Detected'',
      n_purchaseId = Some purchaseId, n_claimId = None, n_creditCardId = None\<rparr>"

text \<open>
  \<^verbatim>\<open>
  async extractPurchaseFromEmail(parsedEmail, userId, emailId) {
    const fromAddress = parsedEmail.from?.value?.[0]?.address?.toLowerCase() || '';
    const subject = parsedEmail.subject || '';
    const emailDate = parsedEmail.date || new Date();
    ... identify the retailer ...
    if (!retailer) return null;
    const existing = await prisma.purchase.findFirst({ where: { userId, sourceEmailId: emailId } });
    if (existing) return null;
    const body = htmlBody || textBody;
    const prices = priceMatches.map(p => parseFloat(p.replace(/[$,]/g, '')))
      .filter(p => p > 0 && p < 10000).sort((a, b) => b - a);
    if (prices.length === 0) return null;
    ...
    const cardLast4 = this.extractCardLast4(body);
    const matchedCard = await this.matchCardToUser(userId, cardLast4, body);
    let protectionEnds = null;
    if (matchedCard && matchedCard.protectionDays) {
      protectionEnds = new Date(emailDate);
      protectionEnds.setDate(protectionEnds.getDate() + matchedCard.protectionDays);
    }
    const purchase = await prisma.purchase.create({ data: { userId, ...,
        purchasePrice: prices[0], currentPrice: prices[0], lowestPrice: prices[0],
        lowestPriceDate: emailDate, purchaseDate: emailDate, sourceType: 'EMAIL',
        sourceEmailId: emailId, status: 'MONITORING', creditCardId: matchedCard?.id || null,
        protectionEnds: protectionEnds, productUrl: productUrl } });
    await prisma.priceHistory.create({ data: { purchaseId: purchase.id, price: prices[0], ... } });
    await prisma.notification.create({ ... });
    return purchase;
  }
  \<close>
  \<^verbatim>\<open>setDate(getDate() + n)\<close> works on the local time of the host: the instant is
  converted to local time by the offset of the host's zone at that instant, \<open>n\<close> days of
  24 hours are added to the local time, which keeps the time of day, and the result is
  converted back by the offset that the zone has at that local time. The two offsets
  differ when a daylight-saving shift lies between the two dates. The offsets of the
  host's zone are an input of the model.
\<close>

record time_zone =
  offset_at_instant :: "instant \<Rightarrow> int"
  offset_at_local :: "instant \<Rightarrow> int"

definition setDate_plus :: "time_zone \<Rightarrow> instant \<Rightarrow> nat \<Rightarrow> instant" where
  "setDate_plus tz t n =
     (let local = t + offset_at_instant tz t;
          moved = local + int n * day_ms
      in moved - offset_at_local tz moved)"

text \<open>A host that runs in UTC.\<close>

definition utc :: time_zone where
  "utc = \<lparr>offset_at_instant = (\<lambda>t. 0), offset_at_local = (\<lambda>t. 0)\<rparr>"

definition extractPurchaseFromEmail ::
  "instant \<Rightarrow> time_zone \<Rightarrow> (string \<Rightarrow> bodyScan) \<Rightarrow> bool \<Rightarrow> money
     \<Rightarrow> parsedEmail \<Rightarrow> nat \<Rightarrow> string \<Rightarrow> db \<Rightarrow> purchase option \<times> db" where
  "extractPurchaseFromEmail now tz scan persisted schemaMaxClaim parsed userId emailId d =
     (let fromAddress = toLowerCase (str_or (pe_from parsed) []);
          subject = str_or (pe_subject parsed) [];
          emailDate = (case pe_date parsed of None \<Rightarrow> now | Some t \<Rightarrow> t)
      in case identifyRetailer fromAddress subject of
           None \<Rightarrow> (None, d)
         | Some retailerName \<Rightarrow>
             (case find_by_source_email d userId emailId of
                Some existing \<Rightarrow> (None, d)
              | None \<Rightarrow>
                  let body = str_or (pe_html parsed) (str_or (pe_text parsed) []);
                      found = scan retailerName;
                      prices = rev (sort (filter (\<lambda>p. p > 0 \<and> p < 10000) (priceMatches found)))
                  in case prices of
                       [] \<Rightarrow> (None, d)
                     | highest # _ \<Rightarrow>
                         let (matchedCard, d1) =
                               matchCardToUser persisted schemaMaxClaim userId
                                 (scannedCardLast4 found) body d;
                             ends = (case matchedCard of
                                       None \<Rightarrow> None
                                     | Some linked \<Rightarrow>
                                         if protectionDays linked = 0 then None
                                         else Some (setDate_plus tz emailDate (protectionDays linked)));
                             created =
                               \<lparr>p_id = fresh_id (map p_id (purchases d1)),
                                p_userId = userId,
                                productName = str_or (scannedProductName found)
                                                (capitalize retailerName @ '' Purchase''),
                                retailer = capitalize retailerName,
                                purchasePrice = highest,
                                currentPrice = Some highest,
                                lowestPrice = Some highest,
                                lowestPriceDate = Some emailDate,
                                purchaseDate = emailDate,
                                retailerOrderId = orderIdMatch found,
                                productUrl = scannedProductUrl found,
                                sourceType = ''EMAIL'',
                                sourceEmailId = Some emailId,
                                creditCardId = map_option cc_id matchedCard,
                                protectionEnds = ends,
                                p_status = MONITORING\<rparr>;
                             d2 = create_purchase created d1;
                             d3 = add_observation
                                    \<lparr>ph_purchaseId = p_id created, ph_price = highest,
                                     ph_checkedAt = now\<rparr> d2;
                             d4 = add_notification (newPurchaseNotification userId (p_id created)) d3
                         in (Some created, d4)))"

subsection \<open>The delegated strategy\<close>

text \<open>What \<^verbatim>\<open>parseEmailWithAI\<close> answers: an input of the model.\<close>

record aiItem =
  item_productName :: "string option"
  item_price :: money
  item_productUrl :: "string option"

record aiResult =
  isPurchase :: bool
  ai_items :: "aiItem list"
  ai_retailer :: "string option"
  ai_orderId :: "string option"
  ai_purchaseDate :: "instant option"

text \<open>
  \<^verbatim>\<open>
  function generatePriceCheckUrl(productName, retailer) {
    const searchQuery = encodeURIComponent(`${productName} price ${retailer || ''}`);
    return `https://www.google.com/search?q=${searchQuery}&tbm=shop`;
  }
  \<close>
  \<^verbatim>\<open>encodeURIComponent\<close> keeps the unreserved characters and writes every other
  character as the bytes of its UTF-8 encoding, each as \<^verbatim>\<open>%XX\<close>. A character of the
  model is a code unit below 256: below 128 its encoding is the one byte, from 128 on it
  is the two bytes \<^verbatim>\<open>110000xx 10xxxxxx\<close>.
\<close>

definition hex_digit :: "nat \<Rightarrow> char" where
  "hex_digit n = ''0123456789ABCDEF'' ! (n mod 16)"

definition percent_byte :: "nat \<Rightarrow> string" where
  "percent_byte b = [CHR ''%'', hex_digit (b div 16), hex_digit b]"

definition utf8_bytes :: "char \<Rightarrow> nat list" where
  "utf8_bytes c =
     (if (of_char c :: nat) < 128 then [of_char c]
      else [192 + of_char c div 64, 128 + of_char c mod 64])"

definition encodeURIComponent :: "string \<Rightarrow> string" where
  "encodeURIComponent s =
     concat (map (\<lambda>c. if is_word_char c \<or> c \<in> set ''-.!~*()'' \<or> c = CHR 0x27 then [c]
                       else concat (map percent_byte (utf8_bytes c))) s)"

definition generatePriceCheckUrl :: "string \<Rightarrow> string option \<Rightarrow> string" where
  "generatePriceCheckUrl name retailerName =
     ''https://www.google.com/search?q=''
     @ encodeURIComponent (name @ '' price '' @ str_or retailerName [])
     @ ''&tbm=shop''"

text \<open>
  \<^verbatim>\<open>
  for (const item of aiResult.items || []) {
    if (!item.productName || item.price <= 0) continue;
    let purchaseDate = aiResult.purchaseDate ? new Date(aiResult.purchaseDate)
                                             : (emailData.date || new Date());
    const productUrl = item.productUrl || generatePriceCheckUrl(item.productName, aiResult.retailer);
    const purchase = await prisma.purchase.create({ data: { userId, productName: item.productName,
        retailer: aiResult.retailer || 'Unknown', purchasePrice: item.price, currentPrice: item.price,
        lowestPrice: item.price, lowestPriceDate: purchaseDate, purchaseDate: purchaseDate,
        retailerOrderId: aiResult.orderId, productUrl: productUrl, ...,
        sourceType: 'EMAIL', sourceEmailId: emailId, status: 'MONITORING' } });
    await prisma.priceHistory.create({ data: { purchaseId: purchase.id, price: item.price, ... } });
    await prisma.notification.create({ ... });
    purchases.push(purchase);
  }
  \<close>
\<close>

fun ai_items_loop ::
  "instant \<Rightarrow> instant option \<Rightarrow> aiResult \<Rightarrow> nat \<Rightarrow> string \<Rightarrow> aiItem list \<Rightarrow> purchase list \<Rightarrow> db
     \<Rightarrow> purchase list \<times> db" where
  "ai_items_loop now emailDate ai userId emailId [] acc d = (acc, d)"
| "ai_items_loop now emailDate ai userId emailId (item # rest) acc d =
     (if \<not> str_truthy (item_productName item) \<or> item_price item \<le> 0
      then ai_items_loop now emailDate ai userId emailId rest acc d
      else
        let bought = (case ai_purchaseDate ai of
                        Some t \<Rightarrow> t
                      | None \<Rightarrow> (case emailDate of Some t \<Rightarrow> t | None \<Rightarrow> now));
            name = str_or (item_productName item) [];
            url = (if str_truthy (item_productUrl item) then item_productUrl item
                   else Some (generatePriceCheckUrl name (ai_retailer ai)));
            created =
              \<lparr>p_id = fresh_id (map p_id (purchases d)),
               p_userId = userId,
               productName = name,
               retailer = str_or (ai_retailer ai) ''Unknown'',
               purchasePrice = item_price item,
               currentPrice = Some (item_price item),
               lowestPrice = Some (item_price item),
               lowestPriceDate = Some bought,
               purchaseDate = bought,
               retailerOrderId = ai_orderId ai,
               productUrl = url,
               sourceType = ''EMAIL'',
               sourceEmailId = Some emailId,
               creditCardId = None,
               protectionEnds = None,
               p_status = MONITORING\<rparr>;
            d1 = create_purchase created d;
            d2 = add_observation
                   \<lparr>ph_purchaseId = p_id created, ph_price = item_price item,
                    ph_checkedAt = now\<rparr> d1;
            d3 = add_notification (newPurchaseNotification userId (p_id created)) d2
        in ai_items_loop now emailDate ai userId emailId rest (acc @ [created]) d3)"

text \<open>
  \<^verbatim>\<open>
  async extractPurchaseWithAI(emailData, userId, emailId) {
    const existing = await prisma.purchase.findFirst({ where: { userId, sourceEmailId: emailId } });
    if (existing) return null;
    const aiResult = await parseEmailWithAI(emailData);
    if (!aiResult.isPurchase) return null;
    const purchases = [];
    for (...) { ... }
    return purchases.length > 0 ? purchases : null;
  }
  \<close>
\<close>

definition extractPurchaseWithAI ::
  "instant \<Rightarrow> aiResult \<Rightarrow> instant option \<Rightarrow> nat \<Rightarrow> string \<Rightarrow> db
     \<Rightarrow> purchase list option \<times> db" where
  "extractPurchaseWithAI now ai emailDate userId emailId d =
     (case find_by_source_email d userId emailId of
        Some existing \<Rightarrow> (None, d)
      | None \<Rightarrow>
          if \<not> isPurchase ai then (None, d)
          else
            let (created, d') = ai_items_loop now emailDate ai userId emailId (ai_items ai) [] d
            in (if created = [] then None else Some created, d'))"

section \<open>Claims: creation\<close>

datatype error =
  AppError string nat
  | Error string
  | TypeError string

text \<open>\<^verbatim>\<open>findFirst({ where: { purchaseId, status: { notIn: ['DENIED', 'EXPIRED'] } } })\<close>\<close>

definition find_active_claim :: "db \<Rightarrow> nat \<Rightarrow> claim option" where
  "find_active_claim d purchaseId =
     find (\<lambda>c. c_purchaseId c = purchaseId \<and> c_status c \<notin> set [DENIED, EXPIRED]) (claims d)"

text \<open>The claims of a purchase whose status is outside DENIED and EXPIRED.\<close>

definition active_claims :: "db \<Rightarrow> nat \<Rightarrow> claim list" where
  "active_claims d purchaseId =
     filter (\<lambda>c. c_purchaseId c = purchaseId \<and> c_status c \<notin> set [DENIED, EXPIRED]) (claims d)"

definition create_claim :: "claim \<Rightarrow> db \<Rightarrow> db" where
  "create_claim c d = d\<lparr>claims := claims d @ [c]\<rparr>"

definition new_claim ::
  "db \<Rightarrow> nat \<Rightarrow> nat \<Rightarrow> nat \<Rightarrow> money \<Rightarrow> money option \<Rightarrow> money \<Rightarrow> historyEntry list \<Rightarrow> claim" where
  "new_claim d userId purchaseId cardId original lower difference history =
     \<lparr>c_id = fresh_id (map c_id (claims d)),
      c_userId = userId,
      c_purchaseId = purchaseId,
      c_creditCardId = cardId,
      originalPrice = original,
      newPrice = lower,
      priceDifference = difference,
      c_status = DRAFT,
      statusHistory = history,
      responseNotes = None,
      autoFiled = False,
      claimNumber = None,
      claimEmailTo = None,
      claimEmailMessageId = None,
      proofDocumentUrl = None,
      priceScreenshotUrl = None,
      filedAt = None\<rparr>"

text \<open>
  The claims route, \<^verbatim>\<open>POST /\<close>:
  \<^verbatim>\<open>
  const purchase = await prisma.purchase.findFirst({
    where: { id: purchaseId, userId: req.user.id }, include: { creditCard: true } });
  if (!purchase) throw new AppError('Purchase not found', 404);
  if (!purchase.creditCardId) throw new AppError('Purchase must be linked to a credit card', 400);
  if (!['PRICE_DROP_DETECTED', 'CLAIM_ELIGIBLE'].includes(purchase.status))
    throw new AppError('Purchase is not eligible for a claim', 400);
  if (purchase.protectionEnds && purchase.protectionEnds < new Date())
    throw new AppError('Price protection period has expired', 400);
  const priceDifference = purchase.purchasePrice - purchase.lowestPrice;
  if (priceDifference <= 0) throw new AppError('No price drop detected', 400);
  if (priceDifference > purchase.creditCard.maxClaimAmount) { /* still create, capped */ }
  const existingClaim = await prisma.claim.findFirst({
    where: { purchaseId, status: { notIn: ['DENIED', 'EXPIRED'] } } });
  if (existingClaim) throw new AppError('A claim already exists for this purchase', 409);
  const claim = await prisma.claim.create({ data: { userId: req.user.id, purchaseId,
      creditCardId: purchase.creditCardId, originalPrice: purchase.purchasePrice,
      newPrice: purchase.lowestPrice,
      priceDifference: Math.min(priceDifference, purchase.creditCard.maxClaimAmount),
      status: 'DRAFT' }, ... });
  await prisma.purchase.update({ where: { id: purchaseId }, data: { status: 'CLAIM_ELIGIBLE' } });
  res.status(201).json(claim);
  \<close>
\<close>

definition createClaim :: "instant \<Rightarrow> nat \<Rightarrow> nat \<Rightarrow> db \<Rightarrow> (error + claim) \<times> db" where
  "createClaim now reqUserId purchaseId d =
     (case find (\<lambda>p. p_id p = purchaseId \<and> p_userId p = reqUserId) (purchases d) of
        None \<Rightarrow> (Inl (AppError ''Purchase not found'' 404), d)
      | Some p \<Rightarrow>
          (case creditCardId p of
             None \<Rightarrow> (Inl (AppError ''Purchase must be linked to a credit card'' 400), d)
           | Some cardId \<Rightarrow>
               if p_status p \<notin> set [PRICE_DROP_DETECTED, CLAIM_ELIGIBLE]
               then (Inl (AppError ''Purchase is not eligible for a claim'' 400), d)
               else if (case protectionEnds p of None \<Rightarrow> False | Some ends \<Rightarrow> ends < now)
               then (Inl (AppError ''Price protection period has expired'' 400), d)
               else
                 let difference = js_sub (purchasePrice p) (to_number (lowestPrice p)) in
                 if difference \<le> 0 then (Inl (AppError ''No price drop detected'' 400), d)
                 else
                   (case find_card d cardId of
                      None \<Rightarrow> (Inl (TypeError ''purchase.creditCard is null''), d)
                    | Some cc \<Rightarrow>
                        (case find_active_claim d purchaseId of
                           Some existingClaim \<Rightarrow>
                             (Inl (AppError ''A claim already exists for this purchase'' 409), d)
                         | None \<Rightarrow>
                             let created = new_claim d reqUserId purchaseId cardId
                                             (purchasePrice p) (lowestPrice p)
                                             (min difference (maxClaimAmount cc)) [];
                                 d1 = create_claim created d;
                                 d2 = update_purchase purchaseId
                                        (\<lambda>q. q\<lparr>p_status := CLAIM_ELIGIBLE\<rparr>) d1
                             in (Inr created, d2)))))"

section \<open>Claims: automated filing\<close>

text \<open>
  What the collaborators of a filing run do is an input of the model: the document
  builder, the screenshots and each mail transport either deliver a value or fail.
\<close>

record filing_env =
  doc_generated :: "string option"
  price_screenshot :: "string option"
  email_proof :: "string option"
  gmail_sent :: "string option"
  sendgrid_key :: bool
  sendgrid_sent :: "string option"
  mailer_sent :: "string option"

record filing_result =
  fr_success :: bool
  fr_method :: string
  fr_claimId :: nat
  fr_error :: "string option"
  fr_sentTo :: "string option"
  fr_messageId :: "string option"

datatype channel = PortalAutomation | GmailApi | SendGridRelay | ClaimMailer

text \<open>
  \<^verbatim>\<open>claimService.generateClaimDocumentation(claim)\<close> draws the PDF, writes it and
  returns its name, or rethrows what failed. One of the lines it draws is
  \<^verbatim>\<open>['New Price Found:', `$${claim.newPrice.toFixed(2)}`]\<close>, a TypeError on a claim
  whose \<^verbatim>\<open>newPrice\<close> is null; what the PDF library and the file system do is the
  input \<open>doc_generated\<close>.
\<close>

definition null_toFixed :: string where
  "null_toFixed = ''Cannot read properties of null (reading toFixed)''"

definition generateClaimDocumentation :: "filing_env \<Rightarrow> claim \<Rightarrow> string + string" where
  "generateClaimDocumentation env c =
     (case newPrice c of
        None \<Rightarrow> Inl null_toFixed
      | Some lower \<Rightarrow>
          (case doc_generated env of
             None \<Rightarrow> Inl ''Failed to generate claim documentation''
           | Some fileName \<Rightarrow> Inr fileName))"

definition history_entry :: "string \<Rightarrow> instant \<Rightarrow> string \<Rightarrow> historyEntry" where
  "history_entry st t notes = \<lparr>h_status = st, h_timestamp = t, h_notes = notes\<rparr>"

definition claimFiledNotification :: "claim \<Rightarrow> string \<Rightarrow> string \<Rightarrow> notification" where
  "claimFiledNotification c ty title =
     \<lparr>n_userId = c_userId c, n_type = ty, n_title = title,
      n_purchaseId = Some (c_purchaseId c), n_claimId = Some (c_id c), n_creditCardId = None\<rparr>"

subsection \<open>autoClaimService (SendGrid only)\<close>

text \<open>
  \<^verbatim>\<open>
  function getClaimEmailForIssuer(issuer) {
    const issuerKey = issuer.toLowerCase().replace(/\s+/g, '');
    if (CARD_ISSUERS[issuerKey]?.priceProtection?.claimEmail) return ...claimEmail;
    if (BANK_ISSUERS[issuerKey]?.priceProtection?.claimEmail) return ...claimEmail;
    const fallbackEmails = { 'amex': ..., 'americanexpress': ..., 'chase': ..., 'citi': ...,
                             'discover': ..., 'capitalone': ... };
    return fallbackEmails[issuerKey] || null;
  }
  \<close>
  Of \<^verbatim>\<open>CARD_ISSUERS\<close> and \<^verbatim>\<open>BANK_ISSUERS\<close> only the \<^verbatim>\<open>claimEmail\<close> of each entry
  is read here.
\<close>

definition CARD_ISSUERS_claimEmail :: "(string \<times> string option) list" where
  "CARD_ISSUERS_claimEmail =
     [(''amex'', Some ''priceprotection@americanexpress.com''), (''visa'', None),
      (''mastercard'', None), (''discover'', None)]"

definition BANK_ISSUERS_claimEmail :: "(string \<times> string option) list" where
  "BANK_ISSUERS_claimEmail = [(''chase'', None), (''citi'', None), (''capitalone'', None)]"

definition fallbackEmails :: "(string \<times> string) list" where
  "fallbackEmails =
     [(''amex'', ''priceprotection@americanexpress.com''),
      (''americanexpress'', ''priceprotection@americanexpress.com''),
      (''chase'', ''priceprotection@chase.com''),
      (''citi'', ''priceprotection@citi.com''),
      (''discover'', ''priceprotection@discover.com''),
      (''capitalone'', ''priceprotection@capitalone.com'')]"

definition truthy_entry :: "(string \<times> string option) list \<Rightarrow> string \<Rightarrow> string option" where
  "truthy_entry table key =
     (case map_of table key of
        Some (Some e) \<Rightarrow> if e = [] then None else Some e
      | _ \<Rightarrow> None)"

definition getClaimEmailForIssuer :: "string \<Rightarrow> string option" where
  "getClaimEmailForIssuer iss =
     (let issuerKey = strip_spaces (toLowerCase iss) in
      case truthy_entry CARD_ISSUERS_claimEmail issuerKey of
        Some e \<Rightarrow> Some e
      | None \<Rightarrow>
          (case truthy_entry BANK_ISSUERS_claimEmail issuerKey of
             Some e \<Rightarrow> Some e
           | None \<Rightarrow> map_of fallbackEmails issuerKey))"

text \<open>
  \<^verbatim>\<open>
  async fileClaimViaEmail(claimId) {
    const claim = await prisma.claim.findUnique({ where: { id: claimId }, include: {...} });
    if (!claim) throw new Error('Claim not found');
    if (!claim.creditCard) throw new Error('No credit card linked to this claim');
    const claimEmail = claim.creditCard.claimEmail || getClaimEmailForIssuer(claim.creditCard.issuer);
    if (!claimEmail) throw new Error(`No claim email configured for issuer: ...`);
    try {
      const docUrl = await claimService.generateClaimDocumentation(claim);
      let screenshotPath = null;
      if (claim.purchase.productUrl) screenshotPath = await claimService.capturePriceScreenshot(...);
      const emailData = this.prepareEmailContent(claim);
      const emailResult = await this.sendClaimEmail(claimEmail, ...);
      const emailScreenshotUrl = await this.captureEmailProof(emailData);
      const statusHistory = claim.statusHistory || [];
      statusHistory.push({ status: 'EMAIL_SENT', ... });
      await prisma.claim.update({ where: { id: claimId }, data: { status: 'EMAIL_SENT',
          filedAt: new Date(), autoFiled: true, ..., statusHistory } });
      await prisma.purchase.update({ where: { id: claim.purchaseId }, data: { status: 'CLAIM_FILED' } });
      await prisma.notification.create({ ... });
      return { success: true, claimId, emailSentTo: claimEmail, messageId: emailResult.messageId, ... };
    } catch (error) {
      const statusHistory = claim.statusHistory || [];
      statusHistory.push({ status: 'ERROR', timestamp: ..., notes: `Auto-file failed: ${error.message}` });
      await prisma.claim.update({ where: { id: claimId },
        data: { statusHistory, responseNotes: `Auto-file error: ${error.message}` } });
      throw error;
    }
  }
  prepareEmailContent(claim) {
    ...
    const replacements = { ..., originalPrice: claim.originalPrice.toFixed(2),
      newPrice: claim.newPrice.toFixed(2), priceDifference: claim.priceDifference.toFixed(2), ... };
    ...
    return { subject, body };
  }
  async sendClaimEmail(to, subject, body, pdfPath, screenshotPath, replyTo) {
    if (!process.env.SENDGRID_API_KEY) throw new Error('SendGrid not configured');
    ...
    const response = await sgMail.send(msg);
    return { messageId: ..., statusCode: ... };
  }
  \<close>
  \<^verbatim>\<open>prepareEmailContent\<close> formats \<^verbatim>\<open>claim.newPrice\<close>: on a claim whose
  \<^verbatim>\<open>newPrice\<close> is null it throws a TypeError, inside the \<^verbatim>\<open>try\<close> block.
\<close>

definition prepareEmailContent :: "claim \<Rightarrow> string + unit" where
  "prepareEmailContent c =
     (case newPrice c of None \<Rightarrow> Inl null_toFixed | Some lower \<Rightarrow> Inr ())"

definition service_sendClaimEmail :: "filing_env \<Rightarrow> string + string" where
  "service_sendClaimEmail env =
     (if \<not> sendgrid_key env then Inl ''SendGrid not configured''
      else case sendgrid_sent env of
             None \<Rightarrow> Inl ''SendGrid send failed''
           | Some messageId \<Rightarrow> Inr messageId)"

definition service_attempt :: "filing_env \<Rightarrow> db \<Rightarrow> claim \<Rightarrow> string + (string \<times> string option \<times> string)" where
  "service_attempt env d c =
     (case generateClaimDocumentation env c of
        Inl msg \<Rightarrow> Inl msg
      | Inr docUrl \<Rightarrow>
          (case find_purchase d (c_purchaseId c) of
             None \<Rightarrow> Inl ''Cannot read properties of null''
           | Some p \<Rightarrow>
               let screenshotPath = (if str_truthy (productUrl p) then price_screenshot env else None) in
               (case prepareEmailContent c of
                  Inl msg \<Rightarrow> Inl msg
                | Inr emailData \<Rightarrow>
                    (case service_sendClaimEmail env of
                       Inl msg \<Rightarrow> Inl msg
                     | Inr messageId \<Rightarrow> Inr (docUrl, screenshotPath, messageId)))))"

definition service_fileClaimViaEmail ::
  "filing_env \<Rightarrow> instant \<Rightarrow> nat \<Rightarrow> db \<Rightarrow> (error + filing_result) \<times> db" where
  "service_fileClaimViaEmail env now claimId d =
     (case find_claim d claimId of
        None \<Rightarrow> (Inl (Error ''Claim not found''), d)
      | Some c \<Rightarrow>
          (case find_card d (c_creditCardId c) of
             None \<Rightarrow> (Inl (Error ''No credit card linked to this claim''), d)
           | Some cc \<Rightarrow>
               (case (if str_truthy (claimEmail cc) then claimEmail cc
                      else getClaimEmailForIssuer (issuer cc)) of
                  None \<Rightarrow> (Inl (Error ''No claim email configured for issuer''), d)
                | Some toEmail \<Rightarrow>
                    (case service_attempt env d c of
                       Inr (docUrl, screenshotPath, messageId) \<Rightarrow>
                         let d1 = update_claim claimId
                                    (\<lambda>q. q\<lparr>c_status := EMAIL_SENT,
                                            filedAt := Some now,
                                            autoFiled := True,
                                            claimEmailMessageId := Some messageId,
                                            claimEmailTo := Some toEmail,
                                            proofDocumentUrl := Some docUrl,
                                            priceScreenshotUrl := screenshotPath,
                                            statusHistory := statusHistory c
                                              @ [history_entry ''EMAIL_SENT'' now
                                                   (''Claim email sent to '' @ toEmail)]\<rparr>) d;
                             d2 = update_purchase (c_purchaseId c)
                                    (\<lambda>q. q\<lparr>p_status := CLAIM_FILED\<rparr>) d1;
                             d3 = add_notification
                                    (claimFiledNotification c ''CLAIM_STATUS_UPDATE''
                                       ''Claim Filed Automatically'') d2
                         in (Inr \<lparr>fr_success = True, fr_method = ''email'', fr_claimId = claimId,
                                   fr_error = None, fr_sentTo = Some toEmail,
                                   fr_messageId = Some messageId\<rparr>, d3)
                     | Inl msg \<Rightarrow>
                         (Inl (Error msg),
                          update_claim claimId
                            (\<lambda>q. q\<lparr>statusHistory := statusHistory c
                                      @ [history_entry ''ERROR'' now (''Auto-file failed: '' @ msg)],
                                    responseNotes := Some (''Auto-file error: '' @ msg)\<rparr>) d)))))"

text \<open>
  \<^verbatim>\<open>
  async createAndFileClaim(purchaseId, creditCardId) {
    const purchase = await prisma.purchase.findUnique({ where: { id: purchaseId }, ... });
    if (!purchase) throw new Error('Purchase not found');
    const creditCard = await prisma.creditCard.findUnique({ where: { id: creditCardId } });
    if (!creditCard) throw new Error('Credit card not found');
    const priceDifference = purchase.purchasePrice - (purchase.lowestPrice || purchase.currentPrice);
    if (priceDifference <= 0) throw new Error('No price drop to claim');
    const claim = await prisma.claim.create({ data: {
        userId: purchase.userId, purchaseId: purchase.id, creditCardId: creditCard.id,
        originalPrice: purchase.purchasePrice,
        newPrice: purchase.lowestPrice || purchase.currentPrice,
        priceDifference: Math.min(priceDifference, creditCard.maxClaimAmount),
        status: 'DRAFT',
        statusHistory: [{ status: 'DRAFT', ..., notes: 'Claim created automatically' }] } });
    return await this.fileClaimViaEmail(claim.id);
  }
  \<close>
\<close>

definition createAndFileClaim ::
  "filing_env \<Rightarrow> instant \<Rightarrow> nat \<Rightarrow> nat \<Rightarrow> db \<Rightarrow> (error + filing_result) \<times> db" where
  "createAndFileClaim env now purchaseId cardId d =
     (case find_purchase d purchaseId of
        None \<Rightarrow> (Inl (Error ''Purchase not found''), d)
      | Some p \<Rightarrow>
          (case find_card d cardId of
             None \<Rightarrow> (Inl (Error ''Credit card not found''), d)
           | Some cc \<Rightarrow>
               let lower = num_or (lowestPrice p) (currentPrice p);
                   difference = js_sub (purchasePrice p) (to_number lower)
               in if difference \<le> 0 then (Inl (Error ''No price drop to claim''), d)
                  else
                    let created = new_claim d (p_userId p) (p_id p) (cc_id cc)
                                    (purchasePrice p) lower
                                    (min difference (maxClaimAmount cc))
                                    [history_entry ''DRAFT'' now ''Claim created automatically''];
                        d1 = create_claim created d
                    in service_fileClaimViaEmail env now (c_id created) d1))"

subsection \<open>claimService.autoFileClaim (one mail transport)\<close>

text \<open>
  \<^verbatim>\<open>
  async autoFileClaim(claimId) {
    const claim = await prisma.claim.findUnique({ ... });
    if (!claim) throw new Error('Claim not found');
    const issuerInfo = this.getIssuerInfo(claim.creditCard.issuer);
    const doc = await this.generateClaimDocumentation(claim);
    ...
    let submissionResult;
    try {
      submissionResult = await this.sendClaimEmail(claim, attachments);
    } catch (emailError) {
      await prisma.claim.update({ where: { id: claimId }, data: {
          proofDocumentUrl: `/documents/${doc.fileName}`, status: 'READY_TO_FILE',
          responseNotes: `Auto-submission failed: ${emailError.message}. Please file manually.` } });
      return { success: false, claimId, status: 'READY_TO_FILE', ... };
    }
    const updatedClaim = await prisma.claim.update({ where: { id: claimId }, data: {
        proofDocumentUrl: `/documents/${doc.fileName}`, status: 'FILED', filedAt: new Date(), ... } });
    await prisma.purchase.update({ where: { id: claim.purchaseId }, data: { status: 'CLAIM_FILED' } });
    await prisma.notification.create({ ... });
    return { success: true, claimId, status: 'FILED', ... };
  }
  \<close>
  Every entry of \<^verbatim>\<open>ISSUER_INFO\<close> has an address, so \<^verbatim>\<open>sendClaimEmail\<close> fails only
  when the transport does.
\<close>

definition claimService_autoFileClaim ::
  "filing_env \<Rightarrow> instant \<Rightarrow> db \<Rightarrow> nat \<Rightarrow> channel list \<times> (error + filing_result) \<times> db" where
  "claimService_autoFileClaim env now d claimId =
     (case find_claim d claimId of
        None \<Rightarrow> ([], Inl (Error ''Claim not found''), d)
      | Some c \<Rightarrow>
          (case find_card d (c_creditCardId c) of
             None \<Rightarrow> ([], Inl (TypeError ''claim.creditCard is null''), d)
           | Some cc \<Rightarrow>
               (case generateClaimDocumentation env c of
                  Inl msg \<Rightarrow> ([], Inl (Error msg), d)
                | Inr fileName \<Rightarrow>
                    (case mailer_sent env of
                       None \<Rightarrow>
                         ([ClaimMailer],
                          Inr \<lparr>fr_success = False, fr_method = ''email'', fr_claimId = claimId,
                               fr_error = Some ''mail transport failed'', fr_sentTo = None,
                               fr_messageId = None\<rparr>,
                          update_claim claimId
                            (\<lambda>q. q\<lparr>proofDocumentUrl := Some (''/documents/'' @ fileName),
                                    c_status := READY_TO_FILE,
                                    responseNotes := Some ''Auto-submission failed. Please file manually.''\<rparr>)
                            d)
                     | Some messageId \<Rightarrow>
                         let d1 = update_claim claimId
                                    (\<lambda>q. q\<lparr>proofDocumentUrl := Some (''/documents/'' @ fileName),
                                            c_status := FILED,
                                            filedAt := Some now,
                                            responseNotes := Some (''Auto-filed via email. Message ID: ''
                                                                    @ messageId)\<rparr>) d;
                             d2 = update_purchase (c_purchaseId c)
                                    (\<lambda>q. q\<lparr>p_status := CLAIM_FILED\<rparr>) d1;
                             d3 = add_notification
                                    (claimFiledNotification c ''CLAIM_FILED''
                                       ''Claim Filed Automatically!'') d2
                         in ([ClaimMailer],
                             Inr \<lparr>fr_success = True, fr_method = ''email'', fr_claimId = claimId,
                                  fr_error = None, fr_sentTo = None,
                                  fr_messageId = Some messageId\<rparr>,
                             d3)))))"

subsection \<open>autoClaimFiler, the revision with portal automation\<close>








text \<open>
  \<^verbatim>\<open>
  async function fileClaimViaEmail(claim) {
    try {
      const result = await claimService.autoFileClaim(claim.id);
      return { ...result, method: 'email', message: ... };
    } catch (error) {
      await prisma.claim.update({ where: { id: claim.id }, data: { status: 'READY_TO_FILE',
        responseNotes: `Auto-filing failed (both portal and email). Error: ... Please file manually.` } });
      return { success: false, method: 'manual', claimId: claim.id, error: error.message, ... };
    }
  }
  \<close>
  The module requires \<^verbatim>\<open>./claimService\<close>, whose \<^verbatim>\<open>autoFileClaim\<close> is the one above:
  it sends through its one mail transport.
\<close>

definition error_message :: "error \<Rightarrow> string" where
  "error_message e = (case e of AppError m _ \<Rightarrow> m | Error m \<Rightarrow> m | TypeError m \<Rightarrow> m)"

definition filer_fileClaimViaEmail ::
  "filing_env \<Rightarrow> instant \<Rightarrow> db \<Rightarrow> claim \<Rightarrow> channel list \<times> (error + filing_result) \<times> db" where
  "filer_fileClaimViaEmail env now d c =
     (case claimService_autoFileClaim env now d (c_id c) of
        (tried, Inr result, d') \<Rightarrow> (tried, Inr (result\<lparr>fr_method := ''email''\<rparr>), d')
      | (tried, Inl err, d') \<Rightarrow>
          (tried,
           Inr \<lparr>fr_success = False, fr_method = ''manual'', fr_claimId = c_id c,
                fr_error = Some (error_message err), fr_sentTo = None, fr_messageId = None\<rparr>,
           update_claim (c_id c)
             (\<lambda>q. q\<lparr>c_status := READY_TO_FILE,
                     responseNotes := Some (''Auto-filing failed (both portal and email). Error: ''
                                             @ error_message err @ ''. Please file manually.'')\<rparr>)
             d'))"

text \<open>
  \<^verbatim>\<open>
  async function autoFileClaim(claimId) {
    const claim = await prisma.claim.findUnique({ ... });
    if (!claim) throw new Error('Claim not found');
    if (!claim.creditCard) throw new Error('No credit card linked to this claim');
    const issuer = claim.creditCard.issuer;
    const portalConfig = CLAIM_PORTALS[issuer];
    if (!portalConfig) return await fileClaimViaEmail(claim);
    let browser = null;
    try {
      browser = await puppeteer.launch({ ... });
      ...
      const formData = buildFormData(claim);
      const doc = await claimService.generateClaimDocumentation(claim);
      let stepSuccess = true;
      for (const step of portalConfig.steps) {
        try { switch (step.action) { ... } }
        catch (stepError) { stepSuccess = false; }
      }
      ...
      if (stepSuccess) {
        await prisma.claim.update({ where: { id: claimId }, data: { status: 'FILED', filedAt: new Date(),
            autoFiled: true, claimNumber: confirmationNumber, proofDocumentUrl: ...,
            statusHistory: [{ status: 'FILED', ..., notes: `Auto-filed via ${issuer} portal` }] } });
        await prisma.purchase.update({ where: { id: claim.purchaseId }, data: { status: 'CLAIM_FILED' } });
        await prisma.notification.create({ ... });
        return { success: true, method: 'portal', ... };
      } else {
        return await fileClaimViaEmail(claim);
      }
    } catch (error) {
      ...
      return await fileClaimViaEmail(claim);
    }
  }
  \<close>
\<close>




subsection \<open>autoClaimFiler, the revision with Gmail and SendGrid\<close>

text \<open>
  \<^verbatim>\<open>
  const ISSUER_CLAIM_EMAILS = { 'american express': 'purchaseprotection@aexp.com', ... };
  function getClaimEmail(issuer, card) {
    if (card?.claimEmail) return card.claimEmail;
    const key = (issuer || '').toLowerCase().trim();
    if (ISSUER_CLAIM_EMAILS[key]) return ISSUER_CLAIM_EMAILS[key];
    const network = (card?.network || '').toLowerCase().trim();
    if (ISSUER_CLAIM_EMAILS[network]) return ISSUER_CLAIM_EMAILS[network];
    return 'cardbenefitservices@eclaimsline.com';
  }
  \<close>
\<close>

definition ISSUER_CLAIM_EMAILS :: "(string \<times> string) list" where
  "ISSUER_CLAIM_EMAILS =
     [(''american express'', ''purchaseprotection@aexp.com''),
      (''amex'', ''purchaseprotection@aexp.com''),
      (''chase'', ''cardbenefitservices@eclaimsline.com''),
      (''citi'', ''citibenefit@aon.com''),
      (''citibank'', ''citibenefit@aon.com''),
      (''discover'', ''discover@cardbenefitservices.com''),
      (''visa'', ''visabenefits@cardbenefitservices.com''),
      (''mastercard'', ''mastercardbenefits@cardbenefitservices.com''),
      (''capital one'', ''priceprotection@capitalone.com''),
      (''capitalone'', ''priceprotection@capitalone.com''),
      (''wells fargo'', ''priceprotection@wellsfargo.com''),
      (''wellsfargo'', ''priceprotection@wellsfargo.com''),
      (''barclays'', ''benefits@barclaysus.com''),
      (''usbank'', ''cardmemberservice@usbank.com''),
      (''us bank'', ''cardmemberservice@usbank.com'')]"

definition trim :: "string \<Rightarrow> string" where
  "trim s = rev (dropWhile is_space (rev (dropWhile is_space s)))"

definition getClaimEmail :: "string \<Rightarrow> creditCard \<Rightarrow> string" where
  "getClaimEmail iss cc =
     (if str_truthy (claimEmail cc) then str_or (claimEmail cc) []
      else case map_of ISSUER_CLAIM_EMAILS (trim (toLowerCase iss)) of
             Some e \<Rightarrow> e
           | None \<Rightarrow>
               (case map_of ISSUER_CLAIM_EMAILS (trim (toLowerCase (network cc))) of
                  Some e \<Rightarrow> e
                | None \<Rightarrow> ''cardbenefitservices@eclaimsline.com''))"

text \<open>
  \<^verbatim>\<open>
  async function getGmailClient(userId) {
    const user = await prisma.user.findUnique({ where: { id: userId }, ... });
    if (!user?.gmailAccessToken) throw new Error('Gmail not connected for this user');
    ...
  }
  async function sendClaimEmailViaGmail(userId, ...) {
    const gmail = await getGmailClient(userId);
    ...
    const response = await gmail.users.messages.send({ ... });
    return { messageId: ..., ... };
  }
  async function sendClaimEmailViaSendGrid(toEmail, ...) {
    if (!process.env.SENDGRID_API_KEY || !sgMail) throw new Error('SENDGRID_API_KEY is not configured...');
    ...
    const response = await sgMail.send(msg);
    return { messageId: ..., ... };
  }
  \<close>
\<close>

definition sendClaimEmailViaGmail :: "filing_env \<Rightarrow> db \<Rightarrow> nat \<Rightarrow> string + string" where
  "sendClaimEmailViaGmail env d userId =
     (case find_user d userId of
        None \<Rightarrow> Inl ''Gmail not connected for this user''
      | Some u \<Rightarrow>
          if \<not> str_truthy (gmailAccessToken u) then Inl ''Gmail not connected for this user''
          else (case gmail_sent env of
                  None \<Rightarrow> Inl ''Gmail send failed''
                | Some messageId \<Rightarrow> Inr messageId))"

definition sendClaimEmailViaSendGrid :: "filing_env \<Rightarrow> string + string" where
  "sendClaimEmailViaSendGrid env =
     (if \<not> sendgrid_key env then Inl ''SENDGRID_API_KEY is not configured''
      else (case sendgrid_sent env of
              None \<Rightarrow> Inl ''SendGrid send failed''
            | Some messageId \<Rightarrow> Inr messageId))"

text \<open>
  The body of the \<^verbatim>\<open>try\<close> block up to the send: the transports tried, in order, and
  either the error that reaches the handler or what was sent.
  \<^verbatim>\<open>
    const doc = await claimService.generateClaimDocumentation(claim);
    ...
    if (claim.purchase.productUrl) { const screenshot = await claimService.capturePriceScreenshot(...); ... }
    ...
    try {
      emailResult = await sendClaimEmailViaGmail(claim.userId, ...);
    } catch (gmailError) {
      sendMethod = 'sendgrid';
      emailResult = await sendClaimEmailViaSendGrid(toEmail, subject, body, attachments, claim.user?.email);
    }
  \<close>
\<close>

record sent_mail =
  sm_pdf :: string
  sm_screenshot :: "string option"
  sm_method :: string
  sm_messageId :: string

definition filer_attempt ::
  "filing_env \<Rightarrow> db \<Rightarrow> claim \<Rightarrow> channel list \<times> ((string \<times> string option \<times> string option) + sent_mail)" where
  "filer_attempt env d c =
     (case generateClaimDocumentation env c of
        Inl msg \<Rightarrow> ([], Inl (msg, None, None))
      | Inr pdf \<Rightarrow>
          (case find_purchase d (c_purchaseId c) of
             None \<Rightarrow> ([], Inl (''Cannot read properties of null'', Some pdf, None))
           | Some p \<Rightarrow>
               let shot = (if str_truthy (productUrl p) then price_screenshot env else None) in
               (case sendClaimEmailViaGmail env d (c_userId c) of
                  Inr messageId \<Rightarrow>
                    ([GmailApi],
                     Inr \<lparr>sm_pdf = pdf, sm_screenshot = shot, sm_method = ''gmail'',
                          sm_messageId = messageId\<rparr>)
                | Inl gmailError \<Rightarrow>
                    (case sendClaimEmailViaSendGrid env of
                       Inr messageId \<Rightarrow>
                         ([GmailApi, SendGridRelay],
                          Inr \<lparr>sm_pdf = pdf, sm_screenshot = shot, sm_method = ''sendgrid'',
                               sm_messageId = messageId\<rparr>)
                     | Inl msg \<Rightarrow> ([GmailApi, SendGridRelay], Inl (msg, Some pdf, shot))))))"

text \<open>
  \<^verbatim>\<open>
  async function autoFileClaim(claimId) {
    const claim = await prisma.claim.findUnique({ ... });
    if (!claim)            throw new Error('Claim not found');
    if (!claim.creditCard) throw new Error('No credit card linked to this claim');
    const toEmail = getClaimEmail(issuer, card);
    try {
      ... the attempt above ...
      statusHistory.push({ status: 'EMAIL_SENT', ... });
      await prisma.claim.update({ where: { id: claimId }, data: { status: 'EMAIL_SENT',
          filedAt: sentAt, autoFiled: true, ..., statusHistory } });
      await prisma.purchase.update({ where: { id: claim.purchaseId }, data: { status: 'CLAIM_FILED' } });
      await prisma.notification.create({ ... });
      return { success: true, method: 'email', ... };
    } catch (error) {
      statusHistory.push({ status: 'ERROR', ..., notes: `Auto-file failed: ${error.message}` });
      await prisma.claim.update({ where: { id: claimId }, data: { status: 'READY_TO_FILE',
          statusHistory, responseNotes: `Auto-filing failed: ${error.message}. Please file manually.`,
          proofDocumentUrl: pdfFilePath ? path.basename(pdfFilePath) : claim.proofDocumentUrl,
          priceScreenshotUrl: screenshotFilePath ? ... : claim.priceScreenshotUrl } });
      return { success: false, method: 'manual', claimId, error: error.message, ... };
    }
  }
  \<close>
\<close>

definition autoFileClaim ::
  "filing_env \<Rightarrow> instant \<Rightarrow> db \<Rightarrow> nat \<Rightarrow> channel list \<times> (error + filing_result) \<times> db" where
  "autoFileClaim env now d claimId =
     (case find_claim d claimId of
        None \<Rightarrow> ([], Inl (Error ''Claim not found''), d)
      | Some c \<Rightarrow>
          (case find_card d (c_creditCardId c) of
             None \<Rightarrow> ([], Inl (Error ''No credit card linked to this claim''), d)
           | Some cc \<Rightarrow>
               let toEmail = getClaimEmail (issuer cc) cc in
               (case filer_attempt env d c of
                  (tried, Inr sent) \<Rightarrow>
                    let d1 = update_claim claimId
                               (\<lambda>q. q\<lparr>c_status := EMAIL_SENT,
                                       filedAt := Some now,
                                       autoFiled := True,
                                       claimEmailMessageId := Some (sm_messageId sent),
                                       claimEmailTo := Some toEmail,
                                       proofDocumentUrl := Some (sm_pdf sent),
                                       priceScreenshotUrl := sm_screenshot sent,
                                       statusHistory := statusHistory c
                                         @ [history_entry ''EMAIL_SENT'' now
                                              (''Claim email sent to '' @ toEmail @ '' via ''
                                               @ sm_method sent)]\<rparr>) d;
                        d2 = update_purchase (c_purchaseId c)
                               (\<lambda>q. q\<lparr>p_status := CLAIM_FILED\<rparr>) d1;
                        d3 = add_notification
                               (claimFiledNotification c ''CLAIM_FILED''
                                  ''Claim Filed Automatically!'') d2
                    in (tried,
                        Inr \<lparr>fr_success = True, fr_method = ''email'', fr_claimId = claimId,
                             fr_error = None, fr_sentTo = Some toEmail,
                             fr_messageId = Some (sm_messageId sent)\<rparr>,
                        d3)
                | (tried, Inl (msg, pdf, shot)) \<Rightarrow>
                    (tried,
                     Inr \<lparr>fr_success = False, fr_method = ''manual'', fr_claimId = claimId,
                          fr_error = Some msg, fr_sentTo = None, fr_messageId = None\<rparr>,
                     update_claim claimId
                       (\<lambda>q. q\<lparr>c_status := READY_TO_FILE,
                               statusHistory := statusHistory c
                                 @ [history_entry ''ERROR'' now (''Auto-file failed: '' @ msg)],
                               responseNotes := Some (''Auto-filing failed: '' @ msg
                                                       @ ''. Please file manually.''),
                               proofDocumentUrl :=
                                 (case pdf of None \<Rightarrow> proofDocumentUrl c | Some f \<Rightarrow> Some f),
                               priceScreenshotUrl :=
                                 (case shot of None \<Rightarrow> priceScreenshotUrl c | Some f \<Rightarrow> Some f)\<rparr>)
                       d))))"

section \<open>Reachable price-tracking states\<close>

text \<open>
  A purchase as extraction leaves it: its lowest price is the purchase price, a positive
  amount, and the only observation recorded for it is the seed at that price.
\<close>

definition seeded :: "db \<Rightarrow> nat \<Rightarrow> money \<Rightarrow> bool" where
  "seeded d i s =
     (case find_purchase d i of
        None \<Rightarrow> False
      | Some p \<Rightarrow> purchasePrice p = s \<and> lowestPrice p = Some s \<and> 0 < s
                  \<and> observations d i = [s])"

text \<open>The stored lowest price is positive and is the least recorded observation.\<close>

definition lowest_is_min :: "db \<Rightarrow> nat \<Rightarrow> bool" where
  "lowest_is_min d i =
     (case find_purchase d i of
        None \<Rightarrow> False
      | Some p \<Rightarrow>
          (case lowestPrice p of
             None \<Rightarrow> False
           | Some l \<Rightarrow> 0 < l \<and> observations d i \<noteq> [] \<and> l = Min (set (observations d i))))"

section \<open>Example data\<close>

definition ex_user :: user where
  "ex_user = \<lparr>u_id = 1, u_email = ''pat@example.com'', u_name = Some ''Pat'',
              priceDropThreshold = Some 5, gmailAccessToken = None\<rparr>"

definition ex_card :: creditCard where
  "ex_card = \<lparr>cc_id = 1, cc_userId = 1, lastFour = ''4242'', network = ''amex'',
              issuer = ''Amex'', nickname = ''Everyday'', cardType = ''AMEX'',
              protectionDays = 90, maxClaimAmount = 500, claimMethod = ''EMAIL'',
              claimEmail = None, autoClaimEnabled = True\<rparr>"

definition ex_purchase :: purchase where
  "ex_purchase = \<lparr>p_id = 1, p_userId = 1, productName = ''Headphones'', retailer = ''Amazon'',
                  purchasePrice = 100, currentPrice = Some 100, lowestPrice = Some 100,
                  lowestPriceDate = Some 0, purchaseDate = 0, retailerOrderId = None,
                  productUrl = Some ''https://www.amazon.com/dp/B000000001'',
                  sourceType = ''EMAIL'', sourceEmailId = Some ''msg-1'',
                  creditCardId = Some 1, protectionEnds = Some 1000,
                  p_status = MONITORING\<rparr>"

definition ex_db :: db where
  "ex_db = \<lparr>users = [ex_user], creditCards = [ex_card], purchases = [ex_purchase],
            priceHistory = [\<lparr>ph_purchaseId = 1, ph_price = 100, ph_checkedAt = 0\<rparr>],
            claims = [], notifications = []\<rparr>"

text \<open>The same purchase after a check has seen the price 80.\<close>

definition ex_dropped :: purchase where
  "ex_dropped = ex_purchase\<lparr>currentPrice := Some 80, lowestPrice := Some 80,
                             p_status := CLAIM_ELIGIBLE\<rparr>"

definition ex_db_dropped :: db where
  "ex_db_dropped =
     ex_db\<lparr>purchases := [ex_dropped],
            priceHistory := [\<lparr>ph_purchaseId = 1, ph_price = 100, ph_checkedAt = 0\<rparr>,
                             \<lparr>ph_purchaseId = 1, ph_price = 80, ph_checkedAt = 5\<rparr>]\<rparr>"

text \<open>That state with a draft claim for the purchase.\<close>

definition ex_draft :: claim where
  "ex_draft = new_claim ex_db 1 1 1 100 (Some 80) 20 []"

definition ex_db_claimed :: db where
  "ex_db_claimed = ex_db_dropped\<lparr>claims := [ex_draft]\<rparr>"

text \<open>That state, but the card was stored with a maximum claim amount of zero.\<close>

definition ex_db_zero_cap :: db where
  "ex_db_zero_cap = ex_db_dropped\<lparr>creditCards := [ex_card\<lparr>maxClaimAmount := 0\<rparr>]\<rparr>"




text \<open>Gmail is not connected for the user; the SendGrid relay delivers.\<close>

definition ex_env_relay :: filing_env where
  "ex_env_relay = \<lparr>doc_generated = Some ''claim_1.pdf'', price_screenshot = None,
                   email_proof = None, gmail_sent = None, sendgrid_key = True,
                   sendgrid_sent = Some ''sg-1'', mailer_sent = None\<rparr>"

text \<open>No mail transport works, the document builder does.\<close>

definition ex_env_no_mail :: filing_env where
  "ex_env_no_mail = \<lparr>doc_generated = Some ''claim_1.pdf'', price_screenshot = None,
                     email_proof = None, gmail_sent = None, sendgrid_key = False,
                     sendgrid_sent = None, mailer_sent = None\<rparr>"

text \<open>The same store, but the user stored a threshold of 10.\<close>

definition ex_db_strict :: db where
  "ex_db_strict = ex_db\<lparr>users := [ex_user\<lparr>priceDropThreshold := Some 10\<rparr>]\<rparr>"

text \<open>
  A purchase bought at 8.2, which is stored as the double nearest to it, by a user who
  stored no threshold.
\<close>

definition ex_cents :: purchase where
  "ex_cents = ex_purchase\<lparr>purchasePrice := to_double (41 / 5),
                           currentPrice := Some (to_double (41 / 5)),
                           lowestPrice := Some (to_double (41 / 5))\<rparr>"

definition ex_db_cents :: db where
  "ex_db_cents =
     ex_db\<lparr>users := [ex_user\<lparr>priceDropThreshold := None\<rparr>],
            purchases := [ex_cents],
            priceHistory := [\<lparr>ph_purchaseId = 1, ph_price = to_double (41 / 5),
                              ph_checkedAt = 0\<rparr>]\<rparr>"




definition ex_ai :: aiResult where
  "ex_ai = \<lparr>isPurchase = True,
            ai_items = [\<lparr>item_productName = Some ''Headphones'', item_price = 100,
                         item_productUrl = Some ''https://www.amazon.com/dp/B000000001''\<rparr>],
            ai_retailer = Some ''Amazon'', ai_orderId = None, ai_purchaseDate = None\<rparr>"

section \<open>Properties of the arithmetic\<close>

text \<open>
  Values of \<open>to_double\<close> and \<open>js_sub\<close>, which are those of the doubles: 8.2 and 3.2 are
  not doubles, and the difference of the doubles nearest to them is
  4.999999999999999, below 5; \<^verbatim>\<open>2^53 + 1\<close> rounds to the even neighbour.
\<close>

lemma to_double_examples:
  "to_double 100 = 100"
  "to_double (41 / 5) = 2308094809027379 / 281474976710656"
  "to_double (16 / 5) = 3602879701896397 / 1125899906842624"
  "to_double (1 / 3) = 6004799503160661 / 18014398509481984"
  "to_double (- 1 / 3) = - 6004799503160661 / 18014398509481984"
  "to_double 9007199254740993 = 9007199254740992"
  "to_double 9007199254740995 = 9007199254740996"
  by code_simp+

lemma js_sub_examples:
  "js_sub 100 80 = 20"
  "js_sub 100 90 = 10"
  "js_sub 100 92 = 8"
  "js_sub 100 97 = 3"
  "js_sub 100 100 = 0"
  "js_sub 100 120 = - 20"
  "js_sub (to_double (41 / 5)) (to_double (16 / 5)) = 5629499534213119 / 1125899906842624"
  "js_sub (to_double (41 / 5)) 3 = 1463669878895411 / 281474976710656"
  "js_sub (to_double (3 / 10)) (to_double (1 / 10)) = 7205759403792793 / 36028797018963968"
  by code_simp+

section \<open>Properties of maskCardNumber\<close>

lemma star_not_digit: "\<not> is_digit (CHR ''*'')"
  by (simp add: is_digit_def)

lemma strip_non_digits_all_digits: "\<forall>c \<in> set (strip_non_digits s). is_digit c"
  by (simp add: strip_non_digits_def)

lemma strip_non_digits_no_star: "CHR ''*'' \<notin> set (strip_non_digits s)"
  using strip_non_digits_all_digits star_not_digit by blast

lemma mask_long_shape:
  assumes "10 \<le> length (strip_non_digits s)"
  shows "maskCardNumber s =
           take 6 (strip_non_digits s)
           @ replicate (length (strip_non_digits s) - 10) (CHR ''*'')
           @ drop (length (strip_non_digits s) - 4) (strip_non_digits s)"
  using assms by (simp add: maskCardNumber_def Let_def slice_to_def slice_last_def)

lemma mask_long_length:
  assumes "10 \<le> length (strip_non_digits s)"
  shows "length (maskCardNumber s) = length (strip_non_digits s)"
  using assms by (simp add: mask_long_shape)

lemma mask_long_nth:
  assumes len: "10 \<le> length (strip_non_digits s)"
    and i: "i < length (strip_non_digits s)"
  shows "maskCardNumber s ! i =
           (if i < 6 \<or> length (strip_non_digits s) - 4 \<le> i
            then strip_non_digits s ! i else CHR ''*'')"
proof -
  let ?c = "strip_non_digits s"
  let ?n = "length ?c"
  have shape: "maskCardNumber s = take 6 ?c @ replicate (?n - 10) (CHR ''*'') @ drop (?n - 4) ?c"
    by (rule mask_long_shape [OF len])
  have l6: "length (take 6 ?c) = 6" using len by simp
  consider (first) "i < 6" | (mid) "6 \<le> i" "i < ?n - 4" | (last) "?n - 4 \<le> i"
    by linarith
  then show ?thesis
  proof cases
    case first
    then show ?thesis using len by (simp add: shape nth_append)
  next
    case mid
    then have "i - 6 < ?n - 10" using len by linarith
    then show ?thesis using mid len by (simp add: shape nth_append l6)
  next
    case last
    then have a: "\<not> i < 6" and b: "\<not> i - 6 < ?n - 10" using len by linarith+
    have c: "?n - 4 + (i - 6 - (?n - 10)) = i" using last len by linarith
    show ?thesis using last len i a b by (simp add: shape nth_append l6 c)
  qed
qed

text \<open>
  Claim C10. For every input string, maskCardNumber first drops the characters that are
  not digits. With at least ten digits left the result has as many characters as there
  are digits: the first six digits, one star for each middle digit, and the last four
  digits. With fewer than ten digits left the result is the digit string itself, which
  holds no star at all.
\<close>

theorem maskCardNumber_masks_middle_only:
  "(10 \<le> length (strip_non_digits s) \<longrightarrow>
      maskCardNumber s =
        take 6 (strip_non_digits s)
        @ replicate (length (strip_non_digits s) - 10) (CHR ''*'')
        @ drop (length (strip_non_digits s) - 4) (strip_non_digits s)
      \<and> length (maskCardNumber s) = length (strip_non_digits s)
      \<and> (\<forall>i < length (strip_non_digits s).
            maskCardNumber s ! i =
              (if i < 6 \<or> length (strip_non_digits s) - 4 \<le> i
               then strip_non_digits s ! i else CHR ''*'')))
   \<and> (length (strip_non_digits s) < 10 \<longrightarrow>
      maskCardNumber s = strip_non_digits s \<and> CHR ''*'' \<notin> set (maskCardNumber s))"
proof (intro conjI impI allI)
  assume "10 \<le> length (strip_non_digits s)"
  then show "maskCardNumber s =
        take 6 (strip_non_digits s)
        @ replicate (length (strip_non_digits s) - 10) (CHR ''*'')
        @ drop (length (strip_non_digits s) - 4) (strip_non_digits s)"
    by (rule mask_long_shape)
next
  assume "10 \<le> length (strip_non_digits s)"
  then show "length (maskCardNumber s) = length (strip_non_digits s)"
    by (rule mask_long_length)
next
  fix i
  assume "10 \<le> length (strip_non_digits s)" and "i < length (strip_non_digits s)"
  then show "maskCardNumber s ! i =
              (if i < 6 \<or> length (strip_non_digits s) - 4 \<le> i
               then strip_non_digits s ! i else CHR ''*'')"
    by (rule mask_long_nth)
next
  assume short: "length (strip_non_digits s) < 10"
  then show eq: "maskCardNumber s = strip_non_digits s"
    by (simp add: maskCardNumber_def Let_def)
  show "CHR ''*'' \<notin> set (maskCardNumber s)"
    using short strip_non_digits_no_star by (simp add: maskCardNumber_def Let_def)
qed

theorem maskCardNumber_masks_middle_only_witness:
  "10 \<le> length (strip_non_digits ''4111-1111 1111 1111'')
   \<and> maskCardNumber ''4111-1111 1111 1111'' = ''411111******1111''
   \<and> length (strip_non_digits ''12-34 567'') < 10
   \<and> maskCardNumber ''12-34 567'' = ''1234567''
   \<and> CHR ''*'' \<notin> set (maskCardNumber ''12-34 567'')"
proof -
  have d1: "strip_non_digits ''4111-1111 1111 1111'' = ''4111111111111111''"
    by (simp add: strip_non_digits_def is_digit_def)
  have d2: "strip_non_digits ''12-34 567'' = ''1234567''"
    by (simp add: strip_non_digits_def is_digit_def)
  have l1: "10 \<le> length (strip_non_digits ''4111-1111 1111 1111'')"
    by (simp add: d1)
  have l2: "length (strip_non_digits ''12-34 567'') < 10"
    by (simp add: d2)
  from maskCardNumber_masks_middle_only [of "''4111-1111 1111 1111''"] l1
  have m1: "maskCardNumber ''4111-1111 1111 1111'' =
        take 6 (strip_non_digits ''4111-1111 1111 1111'')
        @ replicate (length (strip_non_digits ''4111-1111 1111 1111'') - 10) (CHR ''*'')
        @ drop (length (strip_non_digits ''4111-1111 1111 1111'') - 4)
            (strip_non_digits ''4111-1111 1111 1111'')"
    by blast
  have r1: "maskCardNumber ''4111-1111 1111 1111'' = ''411111******1111''"
    unfolding m1 d1 by (simp add: numeral_eq_Suc)
  from maskCardNumber_masks_middle_only [of "''12-34 567''"] l2
  have m2: "maskCardNumber ''12-34 567'' = strip_non_digits ''12-34 567''"
    and s2: "CHR ''*'' \<notin> set (maskCardNumber ''12-34 567'')"
    by blast+
  show ?thesis using l1 r1 l2 m2 s2 by (simp add: d2)
qed

section \<open>Properties of the price monitor\<close>

lemma find_map_update:
  assumes "\<And>x. key (f x) = key x"
  shows "find (\<lambda>x. key x = i) (map (\<lambda>x. if key x = i then f x else x) xs)
         = map_option f (find (\<lambda>x. key x = i) xs)"
  using assms by (induction xs) auto

lemma find_purchase_update:
  assumes "\<And>x. p_id (f x) = p_id x"
  shows "find_purchase (update_purchase i f d) i = map_option f (find_purchase d i)"
  unfolding find_purchase_def update_purchase_def
  using find_map_update [of p_id f i "purchases d"] assms by simp

lemma observations_add_observation:
  "observations (add_observation h d) i =
     observations d i @ (if ph_purchaseId h = i then [ph_price h] else [])"
  by (simp add: observations_def add_observation_def)

lemma observations_add_notification:
  "observations (add_notification n d) i = observations d i"
  by (simp add: observations_def add_notification_def)

lemma observations_update_purchase:
  "observations (update_purchase j f d) i = observations d i"
  by (simp add: observations_def update_purchase_def)

lemma find_purchase_add_observation:
  "find_purchase (add_observation h d) i = find_purchase d i"
  by (simp add: find_purchase_def add_observation_def)

lemma find_purchase_add_notification:
  "find_purchase (add_notification n d) i = find_purchase d i"
  by (simp add: find_purchase_def add_notification_def)

lemma notifications_update_purchase:
  "notifications (update_purchase j f d) = notifications d"
  by (simp add: update_purchase_def)

lemma notifications_add_observation:
  "notifications (add_observation h d) = notifications d"
  by (simp add: add_observation_def)

lemma notifications_add_notification:
  "notifications (add_notification n d) = notifications d @ [n]"
  by (simp add: add_notification_def)

lemma scrapePrice_Some: "scrapePrice r = Some cur \<Longrightarrow> 0 < cur \<and> r = Some cur"
  by (auto simp: scrapePrice_def split: option.splits if_splits)

text \<open>Whether a check notifies: the drop is positive and reaches the user's threshold.\<close>

lemma check_success_db:
  assumes "find_purchase d i = Some p" "str_truthy (productUrl p)" "scrapePrice r = Some cur"
  shows "snd (checkPriceForPurchase now r d i) =
           update_purchase i
             (\<lambda>q. (if js_sub (purchasePrice p) cur > 0 \<and> js_sub (purchasePrice p) cur \<ge> userThreshold d p
                    then (\<lambda>q. q\<lparr>p_status := (if isWithinProtection now p then CLAIM_ELIGIBLE
                                                else PRICE_DROP_DETECTED)\<rparr>)
                    else (\<lambda>q. q))
                   ((if isNewLowest p cur
                     then (\<lambda>q. q\<lparr>lowestPrice := Some cur, lowestPriceDate := Some now\<rparr>)
                     else (\<lambda>q. q)) (q\<lparr>currentPrice := Some cur\<rparr>)))
             ((if js_sub (purchasePrice p) cur > 0 \<and> js_sub (purchasePrice p) cur \<ge> userThreshold d p
               then add_notification (priceDropNotification p) else (\<lambda>d. d))
              (add_observation \<lparr>ph_purchaseId = i, ph_price = cur, ph_checkedAt = now\<rparr> d))"
  using assms by (simp add: checkPriceForPurchase_def Let_def)

lemma check_failure_db:
  assumes "find_purchase d i = None
           \<or> (\<exists>p. find_purchase d i = Some p \<and> \<not> str_truthy (productUrl p))
           \<or> scrapePrice r = None"
  shows "snd (checkPriceForPurchase now r d i) = d"
  using assms by (auto simp add: checkPriceForPurchase_def Let_def split: option.splits)

lemma check_success_fields:
  assumes "find_purchase d i = Some p" "str_truthy (productUrl p)" "scrapePrice r = Some cur"
  shows "\<exists>p'. find_purchase (snd (checkPriceForPurchase now r d i)) i = Some p'
           \<and> lowestPrice p' = (if isNewLowest p cur then Some cur else lowestPrice p)
           \<and> lowestPriceDate p' = (if isNewLowest p cur then Some now else lowestPriceDate p)
           \<and> currentPrice p' = Some cur
           \<and> p_status p' =
               (if js_sub (purchasePrice p) cur > 0 \<and> js_sub (purchasePrice p) cur \<ge> userThreshold d p
                then (if isWithinProtection now p then CLAIM_ELIGIBLE else PRICE_DROP_DETECTED)
                else p_status p)
           \<and> purchasePrice p' = purchasePrice p \<and> productUrl p' = productUrl p
           \<and> p_userId p' = p_userId p \<and> p_id p' = p_id p
           \<and> protectionEnds p' = protectionEnds p"
  unfolding check_success_db [OF assms]
  using assms(1)
  by (simp add: find_purchase_update find_purchase_add_observation find_purchase_add_notification)

lemma check_success_observations:
  assumes "find_purchase d i = Some p" "str_truthy (productUrl p)" "scrapePrice r = Some cur"
  shows "observations (snd (checkPriceForPurchase now r d i)) i = observations d i @ [cur]"
  unfolding check_success_db [OF assms]
  by (simp add: observations_add_observation observations_add_notification
      observations_update_purchase)

lemma check_success_notifications:
  assumes "find_purchase d i = Some p" "str_truthy (productUrl p)" "scrapePrice r = Some cur"
  shows "notifications (snd (checkPriceForPurchase now r d i)) =
           notifications d
           @ (if js_sub (purchasePrice p) cur > 0 \<and> js_sub (purchasePrice p) cur \<ge> userThreshold d p
              then [priceDropNotification p] else [])"
  unfolding check_success_db [OF assms]
  by (simp add: notifications_update_purchase notifications_add_observation
      notifications_add_notification)

lemma check_keeps_users:
  "users (snd (checkPriceForPurchase now r d i)) = users d"
  by (simp add: checkPriceForPurchase_def Let_def update_purchase_def add_notification_def
      add_observation_def split: option.splits)

subsection \<open>The lowest price\<close>

lemma seeded_lowest_is_min: "seeded d i s \<Longrightarrow> lowest_is_min d i"
  by (auto simp: seeded_def lowest_is_min_def split: option.splits)

lemma Min_snoc:
  fixes x :: rat
  assumes "xs \<noteq> []"
  shows "Min (set (xs @ [x])) = min x (Min (set xs))"
  using assms by (simp add: Min_insert)

lemma check_keeps_lowest_is_min:
  assumes inv: "lowest_is_min d i"
  shows "lowest_is_min (snd (checkPriceForPurchase now r d i)) i"
proof -
  from inv obtain p l where p: "find_purchase d i = Some p"
    and l: "lowestPrice p = Some l" and pos: "0 < l"
    and ne: "observations d i \<noteq> []" and m: "l = Min (set (observations d i))"
    by (auto simp: lowest_is_min_def split: option.splits)
  show ?thesis
  proof (cases "str_truthy (productUrl p) \<and> scrapePrice r \<noteq> None")
    case False
    then have "snd (checkPriceForPurchase now r d i) = d"
      using p by (intro check_failure_db) auto
    then show ?thesis using inv by simp
  next
    case True
    then obtain cur where url: "str_truthy (productUrl p)" and cur: "scrapePrice r = Some cur"
      by auto
    let ?d = "snd (checkPriceForPurchase now r d i)"
    have cpos: "0 < cur" using scrapePrice_Some [OF cur] by simp
    have nl: "isNewLowest p cur = (cur < l)"
      using l pos by (simp add: isNewLowest_def num_truthy_def to_number_def)
    obtain p' where p': "find_purchase ?d i = Some p'"
      and lp': "lowestPrice p' = (if cur < l then Some cur else Some l)"
      using check_success_fields [OF p url cur, of now] nl l by auto
    have obs: "observations ?d i = observations d i @ [cur]"
      by (rule check_success_observations [OF p url cur])
    have mn: "Min (set (observations ?d i)) = min cur l"
      unfolding obs using Min_snoc [OF ne] m by simp
    have "lowestPrice p' = Some (min cur l)" using lp' by (simp add: min_def)
    moreover have "0 < min cur l" using pos cpos by simp
    moreover have "observations ?d i \<noteq> []" unfolding obs by simp
    ultimately show ?thesis
      unfolding lowest_is_min_def using p' mn by simp
  qed
qed

lemma run_checks_keeps_lowest_is_min:
  "lowest_is_min d i \<Longrightarrow> lowest_is_min (run_checks d i cs) i"
proof (induction cs arbitrary: d)
  case Nil
  then show ?case by simp
next
  case (Cons c cs)
  obtain now r where c: "c = (now, r)" by (cases c)
  show ?case
    unfolding c run_checks.simps
    by (rule Cons.IH) (rule check_keeps_lowest_is_min [OF Cons.prems])
qed

lemma check_changes_lowest_only_when_lower:
  assumes p: "find_purchase d i = Some p"
    and nz: "lowestPrice p \<noteq> Some 0"
    and p': "find_purchase (snd (checkPriceForPurchase now r d i)) i = Some p'"
    and ch: "lowestPrice p' \<noteq> lowestPrice p \<or> lowestPriceDate p' \<noteq> lowestPriceDate p"
  shows "\<exists>cur. scrapePrice r = Some cur \<and>
           (lowestPrice p = None \<or> (\<exists>l. lowestPrice p = Some l \<and> cur < l))"
proof (cases "str_truthy (productUrl p) \<and> scrapePrice r \<noteq> None")
  case False
  then have "snd (checkPriceForPurchase now r d i) = d"
    using p by (intro check_failure_db) auto
  then show ?thesis using p p' ch by simp
next
  case True
  then obtain cur where url: "str_truthy (productUrl p)" and cur: "scrapePrice r = Some cur"
    by auto
  have "isNewLowest p cur"
  proof (rule ccontr)
    assume "\<not> isNewLowest p cur"
    then have "lowestPrice p' = lowestPrice p \<and> lowestPriceDate p' = lowestPriceDate p"
      using p' check_success_fields [OF p url cur, of now] by auto
    then show False using ch by simp
  qed
  then show ?thesis
    using cur nz by (cases "lowestPrice p") (auto simp: isNewLowest_def num_truthy_def to_number_def)
qed

text \<open>
  Claim C4. After any run of price checks on a purchase that was seeded at its purchase
  price, the stored lowest price is the least price among all the observations recorded
  for the purchase. A single check changes the lowest price or its date only when it
  observed a price, and that price is strictly below the stored lowest or no lowest is
  stored (the stored lowest of a tracked purchase is never zero: seeds and observed
  prices are positive).
\<close>

theorem lowestPrice_is_least_observation:
  "(seeded d i s \<longrightarrow>
      (\<exists>p. find_purchase (run_checks d i cs) i = Some p
           \<and> observations (run_checks d i cs) i \<noteq> []
           \<and> lowestPrice p = Some (Min (set (observations (run_checks d i cs) i)))))
   \<and> (find_purchase d' j = Some q \<and> lowestPrice q \<noteq> Some 0
       \<and> find_purchase (snd (checkPriceForPurchase now r d' j)) j = Some q'
       \<and> (lowestPrice q' \<noteq> lowestPrice q \<or> lowestPriceDate q' \<noteq> lowestPriceDate q)
      \<longrightarrow> (\<exists>cur. scrapePrice r = Some cur
                 \<and> (lowestPrice q = None \<or> (\<exists>l. lowestPrice q = Some l \<and> cur < l))))"
proof (intro conjI impI)
  assume "seeded d i s"
  then have "lowest_is_min (run_checks d i cs) i"
    by (intro run_checks_keeps_lowest_is_min seeded_lowest_is_min)
  then show "\<exists>p. find_purchase (run_checks d i cs) i = Some p
           \<and> observations (run_checks d i cs) i \<noteq> []
           \<and> lowestPrice p = Some (Min (set (observations (run_checks d i cs) i)))"
    by (auto simp: lowest_is_min_def split: option.splits)
next
  assume "find_purchase d' j = Some q \<and> lowestPrice q \<noteq> Some 0
       \<and> find_purchase (snd (checkPriceForPurchase now r d' j)) j = Some q'
       \<and> (lowestPrice q' \<noteq> lowestPrice q \<or> lowestPriceDate q' \<noteq> lowestPriceDate q)"
  then show "\<exists>cur. scrapePrice r = Some cur
                 \<and> (lowestPrice q = None \<or> (\<exists>l. lowestPrice q = Some l \<and> cur < l))"
    using check_changes_lowest_only_when_lower [of d' j q now r q'] by blast
qed

theorem lowestPrice_is_least_observation_witness:
  "seeded (snd (extractPurchaseWithAI 0 ex_ai None 1 ''msg-1'' empty_db)) 1 100
   \<and> map_option lowestPrice
        (find_purchase
           (run_checks (snd (extractPurchaseWithAI 0 ex_ai None 1 ''msg-1'' empty_db)) 1
              [(10, Some 90), (20, Some 95), (30, None), (40, Some 80)]) 1)
       = Some (Some 80)
   \<and> observations
        (run_checks (snd (extractPurchaseWithAI 0 ex_ai None 1 ''msg-1'' empty_db)) 1
           [(10, Some 90), (20, Some 95), (30, None), (40, Some 80)]) 1
       = [100, 90, 95, 80]
   \<and> find_purchase ex_db 1 = Some ex_purchase
   \<and> lowestPrice ex_purchase = Some 100
   \<and> find_purchase (snd (checkPriceForPurchase 10 (Some 80) ex_db 1)) 1
       = Some (ex_purchase\<lparr>currentPrice := Some 80, lowestPrice := Some 80,
                            lowestPriceDate := Some 10, p_status := CLAIM_ELIGIBLE\<rparr>)
   \<and> scrapePrice (Some 80) = Some 80
   \<and> (\<exists>cur. scrapePrice (Some 80) = Some cur \<and> cur < 100)"
proof -
  let ?d = "snd (extractPurchaseWithAI 0 ex_ai None 1 ''msg-1'' empty_db)"
  let ?cs = "[(10, Some 90), (20, Some 95), (30, None), (40, Some 80)] :: (instant \<times> money option) list"
  let ?q' = "ex_purchase\<lparr>currentPrice := Some 80, lowestPrice := Some 80,
                          lowestPriceDate := Some 10, p_status := CLAIM_ELIGIBLE\<rparr>"
  have s: "seeded ?d 1 100" by code_simp
  have obs: "observations (run_checks ?d 1 ?cs) 1 = [100, 90, 95, 80]" by code_simp
  from lowestPrice_is_least_observation [THEN conjunct1, of ?d 1 100 ?cs] s
  obtain p where p: "find_purchase (run_checks ?d 1 ?cs) 1 = Some p"
    and l: "lowestPrice p = Some (Min (set (observations (run_checks ?d 1 ?cs) 1)))"
    by blast
  have l80: "lowestPrice p = Some 80" unfolding l obs by simp
  have f: "find_purchase ex_db 1 = Some ex_purchase" by code_simp
  have lp: "lowestPrice ex_purchase = Some 100" by (simp add: ex_purchase_def)
  have f': "find_purchase (snd (checkPriceForPurchase 10 (Some 80) ex_db 1)) 1 = Some ?q'"
    by code_simp
  have sc: "scrapePrice (Some 80) = Some 80" by (simp add: scrapePrice_def)
  have "\<exists>cur. scrapePrice (Some 80) = Some cur
          \<and> (lowestPrice ex_purchase = None \<or> (\<exists>l. lowestPrice ex_purchase = Some l \<and> cur < l))"
    using lowestPrice_is_least_observation
            [THEN conjunct2, of ex_db 1 ex_purchase 10 "Some 80" ?q'] f f' lp
    by simp
  then have step: "\<exists>cur. scrapePrice (Some 80) = Some cur \<and> cur < 100"
    by (simp add: lp)
  show ?thesis using p l80 s obs f lp f' sc step by simp
qed

subsection \<open>The eligibility decision\<close>

lemma userThreshold_explicit:
  "userThreshold d p =
     (case find_user d (p_userId p) of
        None \<Rightarrow> 5
      | Some u \<Rightarrow> (case priceDropThreshold u of
                     None \<Rightarrow> 5
                   | Some t \<Rightarrow> if t = 0 then 5 else t))"
  by (simp add: userThreshold_def num_truthy_def to_number_def split: option.splits)

text \<open>
  Claim C5. A price check that fetches a current price for a purchase sets the status
  from the drop, which is the difference \<open>purchasePrice - currentPrice\<close> as the code
  computes it on doubles, and from the threshold, which is the priceDropThreshold the
  user stored, or 5 when the user stored none: CLAIM_ELIGIBLE when the drop is at least
  the threshold and the protection window has not ended, PRICE_DROP_DETECTED when the
  drop is at least the threshold and the window has ended or the purchase has none, and
  the status it had otherwise. A stored threshold is positive, as the settings route
  requires of it (1 to 100).
\<close>

theorem checkPrice_sets_status:
  assumes "find_purchase d i = Some p"
    and "productUrl p = Some url" and "url \<noteq> []"
    and "r = Some cur" and "0 < cur"
    and "find_user d (p_userId p) = Some u"
    and "case priceDropThreshold u of None \<Rightarrow> True | Some t \<Rightarrow> 0 < t"
  shows "map_option p_status (find_purchase (snd (checkPriceForPurchase now r d i)) i) =
           Some (if (case priceDropThreshold u of None \<Rightarrow> 5 | Some t \<Rightarrow> t)
                      \<le> js_sub (purchasePrice p) cur
                 then (if (case protectionEnds p of None \<Rightarrow> False | Some ends \<Rightarrow> now < ends)
                       then CLAIM_ELIGIBLE else PRICE_DROP_DETECTED)
                 else p_status p)"
proof -
  have url: "str_truthy (productUrl p)"
    using assms(2,3) by (simp add: str_truthy_def)
  have cur: "scrapePrice r = Some cur"
    using assms(4,5) by (simp add: scrapePrice_def)
  obtain p' where p': "find_purchase (snd (checkPriceForPurchase now r d i)) i = Some p'"
    and st: "p_status p' =
               (if js_sub (purchasePrice p) cur > 0 \<and> js_sub (purchasePrice p) cur \<ge> userThreshold d p
                then (if isWithinProtection now p then CLAIM_ELIGIBLE else PRICE_DROP_DETECTED)
                else p_status p)"
    using check_success_fields [OF assms(1) url cur, of now] by blast
  have thr: "userThreshold d p = (case priceDropThreshold u of None \<Rightarrow> 5 | Some t \<Rightarrow> t)"
    using assms(6,7) by (simp add: userThreshold_explicit split: option.splits)
  have pos: "0 < userThreshold d p"
    using assms(7) unfolding thr by (simp split: option.splits)
  have q: "(js_sub (purchasePrice p) cur > 0 \<and> js_sub (purchasePrice p) cur \<ge> userThreshold d p)
           = (userThreshold d p \<le> js_sub (purchasePrice p) cur)"
    using pos by auto
  have w: "isWithinProtection now p
           = (case protectionEnds p of None \<Rightarrow> False | Some ends \<Rightarrow> now < ends)"
    by (simp add: isWithinProtection_def)
  have "p_status p' =
          (if userThreshold d p \<le> js_sub (purchasePrice p) cur
           then (if (case protectionEnds p of None \<Rightarrow> False | Some ends \<Rightarrow> now < ends)
                 then CLAIM_ELIGIBLE else PRICE_DROP_DETECTED)
           else p_status p)"
    using st unfolding q w .
  then show ?thesis
    using p' unfolding thr by simp
qed

theorem checkPrice_sets_status_witness:
  "find_purchase ex_db_strict 1 = Some ex_purchase
   \<and> map_option priceDropThreshold (find_user ex_db_strict (p_userId ex_purchase)) = Some (Some 10)
   \<and> purchasePrice ex_purchase = 100 \<and> protectionEnds ex_purchase = Some 1000
   \<and> map_option p_status (find_purchase (snd (checkPriceForPurchase 10 (Some 80) ex_db_strict 1)) 1)
       = Some CLAIM_ELIGIBLE
   \<and> map_option p_status (find_purchase (snd (checkPriceForPurchase 10 (Some 90) ex_db_strict 1)) 1)
       = Some CLAIM_ELIGIBLE
   \<and> map_option p_status (find_purchase (snd (checkPriceForPurchase 10 (Some 92) ex_db_strict 1)) 1)
       = Some MONITORING
   \<and> map_option p_status (find_purchase (snd (checkPriceForPurchase 1000 (Some 80) ex_db_strict 1)) 1)
       = Some PRICE_DROP_DETECTED
   \<and> map_option priceDropThreshold (find_user ex_db (p_userId ex_purchase)) = Some (Some 5)
   \<and> map_option p_status (find_purchase (snd (checkPriceForPurchase 10 (Some 92) ex_db 1)) 1)
       = Some CLAIM_ELIGIBLE
   \<and> find_purchase ex_db_cents 1 = Some ex_cents
   \<and> map_option priceDropThreshold (find_user ex_db_cents (p_userId ex_cents)) = Some None
   \<and> js_sub (purchasePrice ex_cents) (to_double (16 / 5)) = 5629499534213119 / 1125899906842624
   \<and> map_option p_status
        (find_purchase (snd (checkPriceForPurchase 10 (Some (to_double (16 / 5))) ex_db_cents 1)) 1)
       = Some MONITORING
   \<and> map_option p_status (find_purchase (snd (checkPriceForPurchase 10 (Some 3) ex_db_cents 1)) 1)
       = Some CLAIM_ELIGIBLE"
proof -
  let ?url = "''https://www.amazon.com/dp/B000000001''"
  let ?strict = "ex_user\<lparr>priceDropThreshold := Some 10\<rparr>"
  let ?none = "ex_user\<lparr>priceDropThreshold := None\<rparr>"
  have f: "find_purchase ex_db_strict 1 = Some ex_purchase"
    "find_purchase ex_db 1 = Some ex_purchase"
    "find_purchase ex_db_cents 1 = Some ex_cents"
    by (simp_all add: find_purchase_def ex_db_strict_def ex_db_cents_def ex_db_def
        ex_purchase_def ex_cents_def)
  have pu: "productUrl ex_purchase = Some ?url" "productUrl ex_cents = Some ?url"
    by (simp_all add: ex_purchase_def ex_cents_def)
  have ne: "?url \<noteq> []" by simp
  have u: "find_user ex_db_strict (p_userId ex_purchase) = Some ?strict"
    "find_user ex_db (p_userId ex_purchase) = Some ex_user"
    "find_user ex_db_cents (p_userId ex_cents) = Some ?none"
    by (simp_all add: find_user_def ex_db_strict_def ex_db_cents_def ex_db_def ex_user_def
        ex_purchase_def ex_cents_def)
  have th: "case priceDropThreshold ?strict of None \<Rightarrow> True | Some t \<Rightarrow> 0 < t"
    "case priceDropThreshold ex_user of None \<Rightarrow> True | Some t \<Rightarrow> 0 < t"
    "case priceDropThreshold ?none of None \<Rightarrow> True | Some t \<Rightarrow> 0 < t"
    by (simp_all add: ex_user_def)
  have fields: "purchasePrice ex_purchase = 100" "protectionEnds ex_purchase = Some 1000"
    "p_status ex_purchase = MONITORING" "purchasePrice ex_cents = to_double (41 / 5)"
    "protectionEnds ex_cents = Some 1000" "p_status ex_cents = MONITORING"
    "priceDropThreshold ?strict = Some 10" "priceDropThreshold ex_user = Some 5"
    "priceDropThreshold ?none = None"
    by (simp_all add: ex_purchase_def ex_cents_def ex_user_def)
  have d32: "to_double (16 / 5) = 3602879701896397 / 1125899906842624" by code_simp
  have pos32: "(0::rat) < to_double (16 / 5)" unfolding d32 by simp
  note sub = js_sub_examples
  have a: "map_option p_status (find_purchase (snd (checkPriceForPurchase 10 (Some 80) ex_db_strict 1)) 1)
             = Some CLAIM_ELIGIBLE"
    using checkPrice_sets_status
            [where cur = "80" and now = 10, OF f(1) pu(1) ne refl _ u(1) th(1)]
    by (simp add: fields sub)
  have b: "map_option p_status (find_purchase (snd (checkPriceForPurchase 10 (Some 90) ex_db_strict 1)) 1)
             = Some CLAIM_ELIGIBLE"
    using checkPrice_sets_status
            [where cur = "90" and now = 10, OF f(1) pu(1) ne refl _ u(1) th(1)]
    by (simp add: fields sub)
  have c: "map_option p_status (find_purchase (snd (checkPriceForPurchase 10 (Some 92) ex_db_strict 1)) 1)
             = Some MONITORING"
    using checkPrice_sets_status
            [where cur = "92" and now = 10, OF f(1) pu(1) ne refl _ u(1) th(1)]
    by (simp add: fields sub)
  have d: "map_option p_status (find_purchase (snd (checkPriceForPurchase 1000 (Some 80) ex_db_strict 1)) 1)
             = Some PRICE_DROP_DETECTED"
    using checkPrice_sets_status
            [where cur = "80" and now = 1000, OF f(1) pu(1) ne refl _ u(1) th(1)]
    by (simp add: fields sub)
  have e: "map_option p_status (find_purchase (snd (checkPriceForPurchase 10 (Some 92) ex_db 1)) 1)
             = Some CLAIM_ELIGIBLE"
    using checkPrice_sets_status
            [where cur = "92" and now = 10, OF f(2) pu(1) ne refl _ u(2) th(2)]
    by (simp add: fields sub)
  have g: "map_option p_status
             (find_purchase (snd (checkPriceForPurchase 10 (Some (to_double (16 / 5))) ex_db_cents 1)) 1)
             = Some MONITORING"
    using checkPrice_sets_status [where now = 10, OF f(3) pu(2) ne refl pos32 u(3) th(3)]
    by (simp add: fields sub)
  have h: "map_option p_status (find_purchase (snd (checkPriceForPurchase 10 (Some 3) ex_db_cents 1)) 1)
             = Some CLAIM_ELIGIBLE"
    using checkPrice_sets_status
            [where cur = "3" and now = 10, OF f(3) pu(2) ne refl _ u(3) th(3)]
    by (simp add: fields sub)
  show ?thesis
    using f u fields sub a b c d e g h by simp
qed

subsection \<open>Notifications\<close>

text \<open>What a check appends to the notifications, whether it fetched a price or not.\<close>

lemma check_notifications:
  "notifications (snd (checkPriceForPurchase now r d i)) =
     notifications d
     @ (case find_purchase d i of
          None \<Rightarrow> []
        | Some p \<Rightarrow>
            (case productUrl p of
               None \<Rightarrow> []
             | Some url \<Rightarrow>
                 (case r of
                    None \<Rightarrow> []
                  | Some cur \<Rightarrow>
                      if url \<noteq> [] \<and> 0 < cur \<and> 0 < js_sub (purchasePrice p) cur
                         \<and> (case find_user d (p_userId p) of
                              None \<Rightarrow> 5
                            | Some u \<Rightarrow> (case priceDropThreshold u of
                                           None \<Rightarrow> 5
                                         | Some t \<Rightarrow> if t = 0 then 5 else t))
                           \<le> js_sub (purchasePrice p) cur
                      then [\<lparr>n_userId = p_userId p, n_type = ''PRICE_DROP'',
                             n_title = ''Price Drop Detected!'', n_purchaseId = Some (p_id p),
                             n_claimId = None, n_creditCardId = None\<rparr>]
                      else [])))"
proof (cases "find_purchase d i")
  case None
  then show ?thesis by (simp add: checkPriceForPurchase_def)
next
  case (Some p)
  note p = Some
  show ?thesis
  proof (cases "productUrl p")
    case None
    then show ?thesis using p by (simp add: checkPriceForPurchase_def str_truthy_def)
  next
    case (Some url)
    note url = Some
    show ?thesis
    proof (cases r)
      case None
      then show ?thesis
        using p url by (simp add: checkPriceForPurchase_def scrapePrice_def)
    next
      case (Some cur)
      show ?thesis
        using p url Some
        by (simp add: checkPriceForPurchase_def Let_def str_truthy_def scrapePrice_def
            notifications_update_purchase notifications_add_observation
            notifications_add_notification userThreshold_explicit priceDropNotification_def)
    qed
  qed
qed

lemma check_keeps_find_user:
  "find_user (snd (checkPriceForPurchase now r d i)) j = find_user d j"
  by (simp add: find_user_def check_keeps_users)

text \<open>A check keeps what the next check reads of the purchase, apart from its prices.\<close>

lemma check_keeps_identity:
  "map_option (\<lambda>p. (productUrl p, purchasePrice p, p_userId p, p_id p))
     (find_purchase (snd (checkPriceForPurchase now r d i)) i)
   = map_option (\<lambda>p. (productUrl p, purchasePrice p, p_userId p, p_id p)) (find_purchase d i)"
proof (cases "find_purchase d i")
  case None
  then have "snd (checkPriceForPurchase now r d i) = d"
    by (intro check_failure_db) simp
  then show ?thesis by simp
next
  case (Some p)
  show ?thesis
  proof (cases "str_truthy (productUrl p) \<and> scrapePrice r \<noteq> None")
    case False
    then have "snd (checkPriceForPurchase now r d i) = d"
      using Some by (intro check_failure_db) auto
    then show ?thesis by simp
  next
    case True
    then obtain cur where url: "str_truthy (productUrl p)" and cur: "scrapePrice r = Some cur"
      by auto
    from check_success_fields [OF Some url cur, of now]
    show ?thesis using Some by auto
  qed
qed

text \<open>
  Claim C7, as the code has it. A check emits exactly one notification when it fetches a
  price whose drop, the difference \<open>purchasePrice - currentPrice\<close> as the code computes
  it on doubles, is positive and at least the threshold (the priceDropThreshold the user
  stored, or 5 when the user stored none or zero), and every other check emits none: a
  check of an unknown purchase, of a purchase without a product URL, a check that fetches
  no price, and a check whose drop does not qualify. Nothing compares the observed price
  with the one of the check before: a later check that observes the same price emits
  the same notification again.
\<close>

theorem checkPrice_notifies_on_every_qualifying_check:
  "(let emitted =
          (case find_purchase d i of
             None \<Rightarrow> []
           | Some p \<Rightarrow>
               (case productUrl p of
                  None \<Rightarrow> []
                | Some url \<Rightarrow>
                    (case r of
                       None \<Rightarrow> []
                     | Some cur \<Rightarrow>
                         if url \<noteq> [] \<and> 0 < cur \<and> 0 < js_sub (purchasePrice p) cur
                            \<and> (case find_user d (p_userId p) of
                                 None \<Rightarrow> 5
                               | Some u \<Rightarrow> (case priceDropThreshold u of
                                              None \<Rightarrow> 5
                                            | Some t \<Rightarrow> if t = 0 then 5 else t))
                              \<le> js_sub (purchasePrice p) cur
                         then [\<lparr>n_userId = p_userId p, n_type = ''PRICE_DROP'',
                                n_title = ''Price Drop Detected!'', n_purchaseId = Some (p_id p),
                                n_claimId = None, n_creditCardId = None\<rparr>]
                         else [])))
    in notifications (snd (checkPriceForPurchase now r d i)) = notifications d @ emitted
       \<and> notifications (snd (checkPriceForPurchase later r
                                (snd (checkPriceForPurchase now r d i)) i))
           = notifications d @ emitted @ emitted)"
proof -
  let ?d1 = "snd (checkPriceForPurchase now r d i)"
  let ?em = "\<lambda>d. (case find_purchase d i of
             None \<Rightarrow> []
           | Some p \<Rightarrow>
               (case productUrl p of
                  None \<Rightarrow> []
                | Some url \<Rightarrow>
                    (case r of
                       None \<Rightarrow> []
                     | Some cur \<Rightarrow>
                         if url \<noteq> [] \<and> 0 < cur \<and> 0 < js_sub (purchasePrice p) cur
                            \<and> (case find_user d (p_userId p) of
                                 None \<Rightarrow> 5
                               | Some u \<Rightarrow> (case priceDropThreshold u of
                                              None \<Rightarrow> 5
                                            | Some t \<Rightarrow> if t = 0 then 5 else t))
                              \<le> js_sub (purchasePrice p) cur
                         then [\<lparr>n_userId = p_userId p, n_type = ''PRICE_DROP'',
                                n_title = ''Price Drop Detected!'', n_purchaseId = Some (p_id p),
                                n_claimId = None, n_creditCardId = None\<rparr>]
                         else [])))"
  have same: "?em ?d1 = ?em d"
    using check_keeps_identity [of now r d i]
    by (cases "find_purchase d i"; cases "find_purchase ?d1 i")
       (auto simp: check_keeps_find_user split: option.splits)
  have first: "notifications ?d1 = notifications d @ ?em d"
    by (rule check_notifications)
  have second: "notifications (snd (checkPriceForPurchase later r ?d1 i))
                  = notifications ?d1 @ ?em ?d1"
    by (rule check_notifications)
  show ?thesis
    unfolding Let_def second same first by simp
qed

theorem checkPrice_notifies_on_every_qualifying_check_witness:
  "notifications ex_db_strict = []
   \<and> map_option priceDropThreshold (find_user ex_db_strict 1) = Some (Some 10)
   \<and> notifications (snd (checkPriceForPurchase 10 (Some 80) ex_db_strict 1))
       = [\<lparr>n_userId = 1, n_type = ''PRICE_DROP'', n_title = ''Price Drop Detected!'',
           n_purchaseId = Some 1, n_claimId = None, n_creditCardId = None\<rparr>]
   \<and> notifications (snd (checkPriceForPurchase 20 (Some 80)
                            (snd (checkPriceForPurchase 10 (Some 80) ex_db_strict 1)) 1))
       = [\<lparr>n_userId = 1, n_type = ''PRICE_DROP'', n_title = ''Price Drop Detected!'',
           n_purchaseId = Some 1, n_claimId = None, n_creditCardId = None\<rparr>,
          \<lparr>n_userId = 1, n_type = ''PRICE_DROP'', n_title = ''Price Drop Detected!'',
           n_purchaseId = Some 1, n_claimId = None, n_creditCardId = None\<rparr>]
   \<and> notifications (snd (checkPriceForPurchase 10 (Some 92) ex_db_strict 1)) = []
   \<and> notifications (snd (checkPriceForPurchase 10 (Some 120) ex_db_strict 1)) = []
   \<and> notifications (snd (checkPriceForPurchase 10 None ex_db_strict 1)) = []
   \<and> notifications (snd (checkPriceForPurchase 10 (Some 80) ex_db_strict 7)) = []
   \<and> length (notifications (snd (checkPriceForPurchase 10 (Some 92) ex_db 1))) = 1
   \<and> notifications (snd (checkPriceForPurchase 10 (Some (to_double (16 / 5))) ex_db_cents 1)) = []
   \<and> length (notifications (snd (checkPriceForPurchase 10 (Some 3) ex_db_cents 1))) = 1"
proof -
  have f: "find_purchase ex_db_strict 1 = Some ex_purchase"
    "find_purchase ex_db_strict 7 = None"
    "find_purchase ex_db 1 = Some ex_purchase"
    "find_purchase ex_db_cents 1 = Some ex_cents"
    by (simp_all add: find_purchase_def ex_db_strict_def ex_db_cents_def ex_db_def
        ex_purchase_def ex_cents_def)
  have u: "find_user ex_db_strict 1 = Some (ex_user\<lparr>priceDropThreshold := Some 10\<rparr>)"
    "find_user ex_db 1 = Some ex_user"
    "find_user ex_db_cents 1 = Some (ex_user\<lparr>priceDropThreshold := None\<rparr>)"
    by (simp_all add: find_user_def ex_db_strict_def ex_db_cents_def ex_db_def ex_user_def)
  have fields: "purchasePrice ex_purchase = 100" "p_userId ex_purchase = 1" "p_id ex_purchase = 1"
    "productUrl ex_purchase = Some ''https://www.amazon.com/dp/B000000001''"
    "purchasePrice ex_cents = to_double (41 / 5)" "p_userId ex_cents = 1" "p_id ex_cents = 1"
    "productUrl ex_cents = Some ''https://www.amazon.com/dp/B000000001''"
    "priceDropThreshold (ex_user\<lparr>priceDropThreshold := Some 10\<rparr>) = Some 10"
    "priceDropThreshold ex_user = Some 5"
    "priceDropThreshold (ex_user\<lparr>priceDropThreshold := None\<rparr>) = None"
    by (simp_all add: ex_purchase_def ex_cents_def ex_user_def)
  have n0: "notifications ex_db_strict = []" "notifications ex_db = []"
    "notifications ex_db_cents = []"
    by (simp_all add: ex_db_strict_def ex_db_cents_def ex_db_def)
  have d32: "to_double (16 / 5) = 3602879701896397 / 1125899906842624" by code_simp
  have pos32: "(0::rat) < to_double (16 / 5)" unfolding d32 by simp
  note sub = js_sub_examples
  note run = checkPrice_notifies_on_every_qualifying_check [unfolded Let_def]
  have a: "notifications (snd (checkPriceForPurchase 10 (Some 80) ex_db_strict 1))
             = [\<lparr>n_userId = 1, n_type = ''PRICE_DROP'', n_title = ''Price Drop Detected!'',
                 n_purchaseId = Some 1, n_claimId = None, n_creditCardId = None\<rparr>]"
    and b: "notifications (snd (checkPriceForPurchase 20 (Some 80)
                            (snd (checkPriceForPurchase 10 (Some 80) ex_db_strict 1)) 1))
       = [\<lparr>n_userId = 1, n_type = ''PRICE_DROP'', n_title = ''Price Drop Detected!'',
           n_purchaseId = Some 1, n_claimId = None, n_creditCardId = None\<rparr>,
          \<lparr>n_userId = 1, n_type = ''PRICE_DROP'', n_title = ''Price Drop Detected!'',
           n_purchaseId = Some 1, n_claimId = None, n_creditCardId = None\<rparr>]"
    using run [where d = ex_db_strict and i = 1 and r = "Some 80" and now = 10 and later = 20] f u
    by (simp_all add: fields n0 sub)
  have c: "notifications (snd (checkPriceForPurchase 10 (Some 92) ex_db_strict 1)) = []"
    using run [where d = ex_db_strict and i = 1 and r = "Some 92" and now = 10 and later = 20] f u
      by (simp add: fields n0 sub)
  have d: "notifications (snd (checkPriceForPurchase 10 (Some 120) ex_db_strict 1)) = []"
    using run [where d = ex_db_strict and i = 1 and r = "Some 120" and now = 10 and later = 20] f u
      by (simp add: fields n0 sub)
  have e: "notifications (snd (checkPriceForPurchase 10 None ex_db_strict 1)) = []"
    using run [where d = ex_db_strict and i = 1 and r = None and now = 10 and later = 20] f u
      by (simp add: fields n0)
  have g: "notifications (snd (checkPriceForPurchase 10 (Some 80) ex_db_strict 7)) = []"
    using run [where d = ex_db_strict and i = 7 and r = "Some 80" and now = 10 and later = 20] f
      by (simp add: n0)
  have h: "length (notifications (snd (checkPriceForPurchase 10 (Some 92) ex_db 1))) = 1"
    using run [where d = ex_db and i = 1 and r = "Some 92" and now = 10 and later = 20] f u
      by (simp add: fields n0 sub)
  have k: "notifications (snd (checkPriceForPurchase 10 (Some (to_double (16 / 5))) ex_db_cents 1)) = []"
    using run [where d = ex_db_cents and i = 1 and r = "Some (to_double (16 / 5))" and now = 10 and later = 20] f u pos32
    by (simp add: fields n0 sub)
  have l: "length (notifications (snd (checkPriceForPurchase 10 (Some 3) ex_db_cents 1))) = 1"
    using run [where d = ex_db_cents and i = 1 and r = "Some 3" and now = 10 and later = 20] f u
      by (simp add: fields n0 sub)
  show ?thesis
    using n0(1) u(1) a b c d e g h k l by simp
qed

text \<open>
  Against claim C7 as stated: the purchase bought at 100 is checked at the price 80, and
  checked again later at the same price 80. The first check emits one notification, and
  the second, whose observed price has not moved, emits another.
\<close>

theorem checkPrice_renotifies_unmoved_price:
  "length (notifications (snd (checkPriceForPurchase 10 (Some 80) ex_db 1))) = 1
   \<and> map_option currentPrice (find_purchase (snd (checkPriceForPurchase 10 (Some 80) ex_db 1)) 1)
       = Some (Some 80)
   \<and> length (notifications
        (snd (checkPriceForPurchase 20 (Some 80)
               (snd (checkPriceForPurchase 10 (Some 80) ex_db 1)) 1))) = 2"
  by code_simp

section \<open>Properties of purchase extraction\<close>

lemma ai_items_loop_created:
  "ai_items_loop now ed ai u e its acc d = (acc', d') \<Longrightarrow>
     \<exists>new. acc' = acc @ new \<and> purchases d' = purchases d @ new
           \<and> (\<forall>p \<in> set new. p_userId p = u \<and> sourceEmailId p = Some e)"
proof (induction its arbitrary: acc d)
  case Nil
  then show ?case by simp
next
  case (Cons item rest)
  show ?case
  proof (cases "\<not> str_truthy (item_productName item) \<or> item_price item \<le> 0")
    case True
    then have "ai_items_loop now ed ai u e rest acc d = (acc', d')"
      using Cons.prems by simp
    then show ?thesis by (rule Cons.IH)
  next
    case False
    then obtain created d3 where
      step: "ai_items_loop now ed ai u e rest (acc @ [created]) d3 = (acc', d')"
      and ps: "purchases d3 = purchases d @ [created]"
      and own: "p_userId created = u" "sourceEmailId created = Some e"
      using Cons.prems
      by (simp add: Let_def create_purchase_def add_observation_def add_notification_def)
    from Cons.IH [OF step] obtain new where
      "acc' = (acc @ [created]) @ new" "purchases d' = purchases d3 @ new"
      "\<forall>p \<in> set new. p_userId p = u \<and> sourceEmailId p = Some e"
      by blast
    then have "acc' = acc @ (created # new) \<and> purchases d' = purchases d @ (created # new)
               \<and> (\<forall>p \<in> set (created # new). p_userId p = u \<and> sourceEmailId p = Some e)"
      using ps own by simp
    then show ?thesis by blast
  qed
qed

lemma find_append_hit:
  assumes "x \<in> set ys" "P x"
  shows "find P (xs @ ys) \<noteq> None"
  using assms by (auto simp: find_None_iff)

text \<open>After an extraction that created purchases, the message is known.\<close>

lemma extractPurchaseWithAI_marks_message:
  assumes "extractPurchaseWithAI now ai ed u e d = (Some created, d')"
  shows "find_by_source_email d' u e \<noteq> None"
proof -
  from assms obtain acc where
    loop: "ai_items_loop now ed ai u e (ai_items ai) [] d = (acc, d')" and ne: "acc \<noteq> []"
    by (auto simp: extractPurchaseWithAI_def Let_def split: option.splits if_splits prod.splits)
  from ai_items_loop_created [OF loop] obtain new where
    acc: "acc = new" and ps: "purchases d' = purchases d @ new"
    and own: "\<forall>p \<in> set new. p_userId p = u \<and> sourceEmailId p = Some e"
    by auto
  from acc ne obtain x where x: "x \<in> set new" by (cases new) auto
  have "p_userId x = u \<and> sourceEmailId x = Some e" using own x by blast
  then have "find (\<lambda>p. p_userId p = u \<and> sourceEmailId p = Some e) (purchases d @ new) \<noteq> None"
    by (rule find_append_hit [OF x])
  then show ?thesis
    unfolding find_by_source_email_def ps .
qed

text \<open>
  Claim C3. When a purchase of the user already carries the message's id as its source,
  processing the message again, by either strategy, returns null and leaves every table
  as it was: no second purchase is created.
\<close>

theorem extraction_skips_known_message:
  assumes "find_by_source_email d userId emailId = Some existing"
  shows "extractPurchaseWithAI now ai emailDate userId emailId d = (None, d)
         \<and> extractPurchaseFromEmail now tz scan persisted cap parsed userId emailId d
             = (None, d)"
  using assms
  by (simp add: extractPurchaseWithAI_def extractPurchaseFromEmail_def Let_def
      split: option.splits)

theorem extraction_skips_known_message_witness:
  "fst (extractPurchaseWithAI 0 ex_ai None 1 ''msg-1'' empty_db) \<noteq> None
   \<and> length (purchases (snd (extractPurchaseWithAI 0 ex_ai None 1 ''msg-1'' empty_db))) = 1
   \<and> find_by_source_email (snd (extractPurchaseWithAI 0 ex_ai None 1 ''msg-1'' empty_db))
        1 ''msg-1'' \<noteq> None
   \<and> extractPurchaseWithAI 5 ex_ai None 1 ''msg-1''
        (snd (extractPurchaseWithAI 0 ex_ai None 1 ''msg-1'' empty_db))
       = (None, snd (extractPurchaseWithAI 0 ex_ai None 1 ''msg-1'' empty_db))
   \<and> extractPurchaseFromEmail 5 utc
        (\<lambda>r. \<lparr>priceMatches = [100], orderIdMatch = None, scannedProductName = None,
               scannedCardLast4 = None, scannedProductUrl = None\<rparr>)
        True 250
        \<lparr>pe_from = Some ''auto-confirm@amazon.com'', pe_subject = Some ''Your Amazon.com order'',
         pe_html = None, pe_text = Some ''Total $100.00'', pe_date = None\<rparr>
        1 ''msg-1''
        (snd (extractPurchaseWithAI 0 ex_ai None 1 ''msg-1'' empty_db))
       = (None, snd (extractPurchaseWithAI 0 ex_ai None 1 ''msg-1'' empty_db))"
proof -
  let ?d = "snd (extractPurchaseWithAI 0 ex_ai None 1 ''msg-1'' empty_db)"
  have a: "fst (extractPurchaseWithAI 0 ex_ai None 1 ''msg-1'' empty_db) \<noteq> None"
    by code_simp
  have b: "length (purchases ?d) = 1" by code_simp
  have "find_by_source_email ?d 1 ''msg-1'' \<noteq> None" by code_simp
  then obtain existing where e: "find_by_source_email ?d 1 ''msg-1'' = Some existing"
    by blast
  show ?thesis
    using a b e extraction_skips_known_message [OF e] by simp
qed

section \<open>Properties of claim creation\<close>

lemma fold_max_lower: "(a::nat) \<le> fold max xs a"
proof (induction xs arbitrary: a)
  case Nil
  show ?case by simp
next
  case (Cons x xs)
  have "a \<le> max x a" by simp
  also have "\<dots> \<le> fold max xs (max x a)" by (rule Cons.IH)
  finally show ?case by simp
qed

lemma fold_max_upper: "x \<in> set xs \<Longrightarrow> (x::nat) \<le> fold max xs a"
proof (induction xs arbitrary: a)
  case Nil
  then show ?case by simp
next
  case (Cons y ys)
  show ?case
  proof (cases "x = y")
    case True
    have "x \<le> max y a" using True by simp
    also have "\<dots> \<le> fold max ys (max y a)" by (rule fold_max_lower)
    finally show ?thesis by simp
  next
    case False
    then have "x \<in> set ys" using Cons.prems by simp
    then show ?thesis using Cons.IH by simp
  qed
qed

lemma fresh_id_is_new: "fresh_id ids \<notin> set ids"
proof
  assume "fresh_id ids \<in> set ids"
  then have "fresh_id ids \<le> fold max ids 0" by (rule fold_max_upper)
  then show False by (simp add: fresh_id_def)
qed

lemma find_snoc_new:
  assumes "\<forall>x \<in> set xs. \<not> P x" "P y"
  shows "find P (xs @ [y]) = Some y"
  using assms by (induction xs) auto

lemma find_claim_created:
  assumes "c_id c = fresh_id (map c_id (claims d))"
  shows "find_claim (create_claim c d) (c_id c) = Some c"
proof -
  have "\<forall>x \<in> set (claims d). c_id x \<noteq> c_id c"
  proof
    fix x assume "x \<in> set (claims d)"
    then have "c_id x \<in> set (map c_id (claims d))" by simp
    then show "c_id x \<noteq> c_id c"
      using fresh_id_is_new [of "map c_id (claims d)"] assms by metis
  qed
  then show ?thesis
    unfolding find_claim_def create_claim_def
    using find_snoc_new [of "claims d" "\<lambda>x. c_id x = c_id c" c] by simp
qed

lemma find_claim_update:
  assumes "\<And>x. c_id (f x) = c_id x"
  shows "find_claim (update_claim i f d) i = map_option f (find_claim d i)"
  unfolding find_claim_def update_claim_def
  using find_map_update [of c_id f i "claims d"] assms by simp

lemma find_claim_update_purchase: "find_claim (update_purchase j f d) i = find_claim d i"
  by (simp add: find_claim_def update_purchase_def)

lemma find_claim_add_notification: "find_claim (add_notification n d) i = find_claim d i"
  by (simp add: find_claim_def add_notification_def)

lemma new_claim_fields:
  "c_id (new_claim d u pid k orig lower diff hist) = fresh_id (map c_id (claims d))"
  "c_purchaseId (new_claim d u pid k orig lower diff hist) = pid"
  "originalPrice (new_claim d u pid k orig lower diff hist) = orig"
  "newPrice (new_claim d u pid k orig lower diff hist) = lower"
  "priceDifference (new_claim d u pid k orig lower diff hist) = diff"
  "c_status (new_claim d u pid k orig lower diff hist) = DRAFT"
  "c_creditCardId (new_claim d u pid k orig lower diff hist) = k"
  by (simp_all add: new_claim_def)

text \<open>What the route stores when it accepts.\<close>

lemma createClaim_accepts:
  assumes p: "find (\<lambda>p. p_id p = pid \<and> p_userId p = uid) (purchases d) = Some p"
    and k: "creditCardId p = Some k"
    and cc: "find_card d k = Some cc"
    and ok: "createClaim now uid pid d = (Inr c, d1)"
  shows "c = new_claim d uid pid k (purchasePrice p) (lowestPrice p)
               (min (js_sub (purchasePrice p) (to_number (lowestPrice p))) (maxClaimAmount cc)) []
         \<and> 0 < js_sub (purchasePrice p) (to_number (lowestPrice p))
         \<and> find_active_claim d pid = None
         \<and> d1 = update_purchase pid (\<lambda>q. q\<lparr>p_status := CLAIM_ELIGIBLE\<rparr>) (create_claim c d)"
  using ok p k cc
  by (auto simp: createClaim_def Let_def split: if_splits option.splits)

lemma createClaim_rejects_no_drop:
  assumes p: "find (\<lambda>p. p_id p = pid \<and> p_userId p = uid) (purchases d) = Some p"
    and le: "js_sub (purchasePrice p) (to_number (lowestPrice p)) \<le> 0"
  shows "\<exists>e. createClaim now uid pid d = (Inl e, d)"
  using le p
  by (auto simp: createClaim_def Let_def split: if_splits option.splits)

text \<open>The route refuses when the purchase has an active claim, and changes nothing.\<close>

lemma createClaim_refuses_second_active:
  assumes "find_active_claim d pid \<noteq> None"
  shows "\<exists>e. createClaim now uid pid d = (Inl e, d)"
  using assms unfolding createClaim_def
  by (auto simp: Let_def split: if_splits option.splits)

text \<open>Filing by the service keeps the amounts of the claim it files.\<close>

lemma service_file_keeps_amounts:
  assumes "find_claim d cid = Some c"
  shows "\<exists>c'. find_claim (snd (service_fileClaimViaEmail env now cid d)) cid = Some c'
           \<and> priceDifference c' = priceDifference c \<and> newPrice c' = newPrice c
           \<and> originalPrice c' = originalPrice c \<and> c_purchaseId c' = c_purchaseId c"
  using assms unfolding service_fileClaimViaEmail_def
  by (auto simp: Let_def find_claim_update find_claim_update_purchase find_claim_add_notification
      split: option.splits sum.splits prod.splits)

lemma createAndFileClaim_stores:
  assumes p: "find_purchase d pid = Some p"
    and cc: "find_card d k = Some cc"
    and pos: "0 < js_sub (purchasePrice p) (to_number (num_or (lowestPrice p) (currentPrice p)))"
  shows "\<exists>c. find_claim (snd (createAndFileClaim env now pid k d))
                (fresh_id (map c_id (claims d))) = Some c
           \<and> newPrice c = num_or (lowestPrice p) (currentPrice p)
           \<and> originalPrice c = purchasePrice p
           \<and> priceDifference c =
               min (js_sub (purchasePrice p) (to_number (num_or (lowestPrice p) (currentPrice p))))
                   (maxClaimAmount cc)"
proof -
  let ?lower = "num_or (lowestPrice p) (currentPrice p)"
  let ?c = "new_claim d (p_userId p) (p_id p) (cc_id cc) (purchasePrice p) ?lower
              (min (js_sub (purchasePrice p) (to_number ?lower)) (maxClaimAmount cc))
              [history_entry ''DRAFT'' now ''Claim created automatically'']"
  have run: "createAndFileClaim env now pid k d =
               service_fileClaimViaEmail env now (c_id ?c) (create_claim ?c d)"
    using pos by (simp add: createAndFileClaim_def p cc Let_def)
  have cid: "c_id ?c = fresh_id (map c_id (claims d))" by (simp add: new_claim_fields)
  have "find_claim (create_claim ?c d) (c_id ?c) = Some ?c"
    by (rule find_claim_created) (simp add: new_claim_fields)
  from service_file_keeps_amounts [OF this, of env now]
  show ?thesis unfolding run cid by (auto simp: new_claim_fields)
qed

lemma createAndFileClaim_rejects_no_drop:
  assumes p: "find_purchase d pid = Some p"
    and cc: "find_card d k = Some cc"
    and le: "js_sub (purchasePrice p) (to_number (num_or (lowestPrice p) (currentPrice p))) \<le> 0"
  shows "createAndFileClaim env now pid k d = (Inl (Error ''No price drop to claim''), d)"
  using le by (simp add: createAndFileClaim_def p cc Let_def)

text \<open>
  Claim C2, as the code has it. A claim created by the claims route or by
  createAndFileClaim stores, as priceDifference, the lesser of the card's maxClaimAmount
  and \<open>purchasePrice - newPrice\<close>, where newPrice is the price the claim stores: the
  purchase's lowestPrice in the route, \<^verbatim>\<open>lowestPrice || currentPrice\<close> in
  createAndFileClaim. Creation is rejected with an error when \<open>purchasePrice - newPrice\<close>
  is not positive. The stored priceDifference is positive whenever the card's
  maxClaimAmount is. The difference is the one the code computes on doubles.
\<close>

theorem claim_amount_is_capped_difference:
  "(find (\<lambda>p. p_id p = pid \<and> p_userId p = uid) (purchases d) = Some p
      \<and> creditCardId p = Some k \<and> find_card d k = Some cc
      \<and> createClaim now uid pid d = (Inr c, d1)
    \<longrightarrow> originalPrice c = purchasePrice p \<and> newPrice c = lowestPrice p
        \<and> 0 < js_sub (purchasePrice p) (to_number (lowestPrice p))
        \<and> priceDifference c = min (js_sub (purchasePrice p) (to_number (lowestPrice p))) (maxClaimAmount cc)
        \<and> (0 < maxClaimAmount cc \<longrightarrow> 0 < priceDifference c)
        \<and> find_claim d1 (c_id c) = Some c)
   \<and> (find (\<lambda>p. p_id p = pid \<and> p_userId p = uid) (purchases d) = Some p
      \<and> js_sub (purchasePrice p) (to_number (lowestPrice p)) \<le> 0
    \<longrightarrow> (\<exists>e. createClaim now uid pid d = (Inl e, d)))
   \<and> (find_purchase d pid = Some q \<and> find_card d k' = Some cc'
      \<and> 0 < js_sub (purchasePrice q) (to_number (num_or (lowestPrice q) (currentPrice q)))
    \<longrightarrow> (\<exists>c. find_claim (snd (createAndFileClaim env now pid k' d))
                 (fresh_id (map c_id (claims d))) = Some c
            \<and> originalPrice c = purchasePrice q
            \<and> newPrice c = num_or (lowestPrice q) (currentPrice q)
            \<and> priceDifference c =
                min (js_sub (purchasePrice q) (to_number (num_or (lowestPrice q) (currentPrice q))))
                    (maxClaimAmount cc')
            \<and> (0 < maxClaimAmount cc' \<longrightarrow> 0 < priceDifference c)))
   \<and> (find_purchase d pid = Some q \<and> find_card d k' = Some cc'
      \<and> js_sub (purchasePrice q) (to_number (num_or (lowestPrice q) (currentPrice q))) \<le> 0
    \<longrightarrow> createAndFileClaim env now pid k' d = (Inl (Error ''No price drop to claim''), d))"
proof (intro conjI impI)
  assume a: "find (\<lambda>p. p_id p = pid \<and> p_userId p = uid) (purchases d) = Some p
      \<and> creditCardId p = Some k \<and> find_card d k = Some cc
      \<and> createClaim now uid pid d = (Inr c, d1)"
  then have acc: "c = new_claim d uid pid k (purchasePrice p) (lowestPrice p)
               (min (js_sub (purchasePrice p) (to_number (lowestPrice p))) (maxClaimAmount cc)) []"
    and pos: "0 < js_sub (purchasePrice p) (to_number (lowestPrice p))"
    and d1: "d1 = update_purchase pid (\<lambda>q. q\<lparr>p_status := CLAIM_ELIGIBLE\<rparr>) (create_claim c d)"
    using createClaim_accepts [of pid uid d p k cc now c d1] by blast+
  show "originalPrice c = purchasePrice p" by (simp add: acc new_claim_fields)
  show "newPrice c = lowestPrice p" by (simp add: acc new_claim_fields)
  show "0 < js_sub (purchasePrice p) (to_number (lowestPrice p))" by (rule pos)
  show diff: "priceDifference c =
                min (js_sub (purchasePrice p) (to_number (lowestPrice p))) (maxClaimAmount cc)"
    by (simp add: acc new_claim_fields)
  show "0 < priceDifference c" if "0 < maxClaimAmount cc"
    using that pos by (simp add: diff)
  have "c_id c = fresh_id (map c_id (claims d))" by (simp add: acc new_claim_fields)
  then have "find_claim (create_claim c d) (c_id c) = Some c" by (rule find_claim_created)
  then show "find_claim d1 (c_id c) = Some c" by (simp add: d1 find_claim_update_purchase)
next
  assume "find (\<lambda>p. p_id p = pid \<and> p_userId p = uid) (purchases d) = Some p
      \<and> js_sub (purchasePrice p) (to_number (lowestPrice p)) \<le> 0"
  then show "\<exists>e. createClaim now uid pid d = (Inl e, d)"
    using createClaim_rejects_no_drop by blast
next
  assume a: "find_purchase d pid = Some q \<and> find_card d k' = Some cc'
      \<and> 0 < js_sub (purchasePrice q) (to_number (num_or (lowestPrice q) (currentPrice q)))"
  then obtain c where c: "find_claim (snd (createAndFileClaim env now pid k' d))
                 (fresh_id (map c_id (claims d))) = Some c"
    "originalPrice c = purchasePrice q"
    "newPrice c = num_or (lowestPrice q) (currentPrice q)"
    "priceDifference c =
       min (js_sub (purchasePrice q) (to_number (num_or (lowestPrice q) (currentPrice q))))
           (maxClaimAmount cc')"
    using createAndFileClaim_stores [of d pid q k' cc' env now] by blast
  moreover have "0 < maxClaimAmount cc' \<longrightarrow> 0 < priceDifference c"
    using a c(4) by simp
  ultimately show "\<exists>c. find_claim (snd (createAndFileClaim env now pid k' d))
                 (fresh_id (map c_id (claims d))) = Some c
            \<and> originalPrice c = purchasePrice q
            \<and> newPrice c = num_or (lowestPrice q) (currentPrice q)
            \<and> priceDifference c =
                min (js_sub (purchasePrice q) (to_number (num_or (lowestPrice q) (currentPrice q))))
                    (maxClaimAmount cc')
            \<and> (0 < maxClaimAmount cc' \<longrightarrow> 0 < priceDifference c)"
    by blast
next
  assume "find_purchase d pid = Some q \<and> find_card d k' = Some cc'
      \<and> js_sub (purchasePrice q) (to_number (num_or (lowestPrice q) (currentPrice q))) \<le> 0"
  then show "createAndFileClaim env now pid k' d = (Inl (Error ''No price drop to claim''), d)"
    using createAndFileClaim_rejects_no_drop by blast
qed

lemma ex_dropped_found:
  "find (\<lambda>p. p_id p = 1 \<and> p_userId p = 1) (purchases ex_db_dropped) = Some ex_dropped"
  "find_purchase ex_db_dropped 1 = Some ex_dropped"
  "find_card ex_db_dropped 1 = Some ex_card"
  "creditCardId ex_dropped = Some 1"
  "purchasePrice ex_dropped = 100"
  "lowestPrice ex_dropped = Some 80"
  "currentPrice ex_dropped = Some 80"
  "maxClaimAmount ex_card = 500"
  "claims ex_db_dropped = []"
  by (simp_all add: ex_db_dropped_def ex_db_def ex_dropped_def ex_purchase_def ex_card_def
      find_purchase_def find_card_def)

theorem claim_amount_is_capped_difference_witness:
  "find (\<lambda>p. p_id p = 1 \<and> p_userId p = 1) (purchases ex_db_dropped) = Some ex_dropped
   \<and> creditCardId ex_dropped = Some 1
   \<and> find_card ex_db_dropped 1 = Some ex_card
   \<and> fst (createClaim 10 1 1 ex_db_dropped) = Inr (new_claim ex_db_dropped 1 1 1 100 (Some 80) 20 [])
   \<and> priceDifference (new_claim ex_db_dropped 1 1 1 100 (Some 80) 20 []) = min (100 - 80) 500
   \<and> 0 < priceDifference (new_claim ex_db_dropped 1 1 1 100 (Some 80) 20 [])
   \<and> find_purchase ex_db_dropped 1 = Some ex_dropped
   \<and> map_option priceDifference
        (find_claim (snd (createAndFileClaim ex_env_no_mail 10 1 1 ex_db_dropped)) 1) = Some 20
   \<and> (\<exists>e. createClaim 10 1 1 ex_db = (Inl e, ex_db))
   \<and> createAndFileClaim ex_env_no_mail 10 1 1 ex_db = (Inl (Error ''No price drop to claim''), ex_db)"
proof -
  let ?c = "new_claim ex_db_dropped 1 1 1 100 (Some 80) 20 []"
  let ?d1 = "update_purchase 1 (\<lambda>q. q\<lparr>p_status := CLAIM_ELIGIBLE\<rparr>) (create_claim ?c ex_db_dropped)"
  have run: "createClaim 10 1 1 ex_db_dropped = (Inr ?c, ?d1)"
    using ex_dropped_found
    by (simp add: createClaim_def Let_def to_number_def find_active_claim_def
        ex_dropped_def ex_purchase_def js_sub_examples)
  have route: "priceDifference ?c = min (100 - 80) 500 \<and> 0 < priceDifference ?c"
    using claim_amount_is_capped_difference
            [THEN conjunct1, of 1 1 ex_db_dropped ex_dropped 1 ex_card 10 ?c ?d1]
      run ex_dropped_found
    by (simp add: to_number_def js_sub_examples)
  have lower: "num_or (lowestPrice ex_dropped) (currentPrice ex_dropped) = Some 80"
    by (simp add: num_or_def num_truthy_def ex_dropped_found)
  have fresh: "fresh_id (map c_id (claims ex_db_dropped)) = 1"
    by (simp add: ex_dropped_found fresh_id_def)
  have service: "map_option priceDifference
        (find_claim (snd (createAndFileClaim ex_env_no_mail 10 1 1 ex_db_dropped)) 1) = Some 20"
    using claim_amount_is_capped_difference
            [THEN conjunct2, THEN conjunct2, THEN conjunct1,
             of ex_db_dropped 1 ex_dropped 1 ex_card ex_env_no_mail 10]
      ex_dropped_found lower fresh
    by (auto simp add: to_number_def js_sub_examples)
  have f0: "find (\<lambda>p. p_id p = 1 \<and> p_userId p = 1) (purchases ex_db) = Some ex_purchase"
    "find_purchase ex_db 1 = Some ex_purchase" "find_card ex_db 1 = Some ex_card"
    "purchasePrice ex_purchase = 100" "lowestPrice ex_purchase = Some 100"
    "currentPrice ex_purchase = Some 100"
    by (simp_all add: ex_db_def ex_purchase_def ex_card_def find_purchase_def find_card_def)
  have rej1: "\<exists>e. createClaim 10 1 1 ex_db = (Inl e, ex_db)"
    using claim_amount_is_capped_difference
            [THEN conjunct2, THEN conjunct1, of 1 1 ex_db ex_purchase 10] f0
    by (simp add: to_number_def js_sub_examples)
  have rej2: "createAndFileClaim ex_env_no_mail 10 1 1 ex_db
                = (Inl (Error ''No price drop to claim''), ex_db)"
    using claim_amount_is_capped_difference
            [THEN conjunct2, THEN conjunct2, THEN conjunct2,
             of ex_db 1 ex_purchase 1 ex_card ex_env_no_mail 10] f0
    by (simp add: to_number_def num_or_def num_truthy_def js_sub_examples)
  show ?thesis
    using run route service rej1 rej2 ex_dropped_found by simp
qed

text \<open>
  Against claim C2 as stated: the cards route accepts a maxClaimAmount of zero. For a
  purchase bought at 100 whose lowest price is 80, on such a card, the claims route
  creates a claim whose stored priceDifference is 0, which is not positive.
\<close>

theorem claim_amount_zero_on_zero_cap:
  "fst (createClaim 10 1 1 ex_db_zero_cap)
     = Inr (new_claim ex_db_zero_cap 1 1 1 100 (Some 80) 0 [])
   \<and> priceDifference (new_claim ex_db_zero_cap 1 1 1 100 (Some 80) 0 []) = 0
   \<and> originalPrice (new_claim ex_db_zero_cap 1 1 1 100 (Some 80) 0 []) = 100
   \<and> newPrice (new_claim ex_db_zero_cap 1 1 1 100 (Some 80) 0 []) = Some 80"
  by code_simp

subsection \<open>One active claim for a purchase\<close>

text \<open>
  Claim C1 at createAndFileClaim. The purchase has a draft claim, which is active.
  createAndFileClaim looks for no existing claim: it creates a second draft for the same
  purchase, and both stay active whether the e-mail that follows fails or is sent. The
  claims route refuses in the same state (lemma \<open>createClaim_refuses_second_active\<close>).
\<close>

theorem createAndFileClaim_creates_second_active_claim:
  "length (active_claims ex_db_claimed 1) = 1
   \<and> length (active_claims (snd (createAndFileClaim ex_env_no_mail 10 1 1 ex_db_claimed)) 1) = 2
   \<and> length (active_claims (snd (createAndFileClaim ex_env_relay 10 1 1 ex_db_claimed)) 1) = 2
   \<and> map c_status (active_claims (snd (createAndFileClaim ex_env_relay 10 1 1 ex_db_claimed)) 1)
       = [DRAFT, EMAIL_SENT]"
  by code_simp

section \<open>Properties of automated filing\<close>

subsection \<open>The status a failed filing leaves\<close>

text \<open>The filer's revisions leave READY_TO_FILE when no channel delivered.\<close>

lemma autoFileClaim_failure_is_ready_to_file:
  assumes "find_claim d cid = Some c"
    and "autoFileClaim env now d cid = (tried, Inr res, d')"
    and "\<not> fr_success res"
  shows "map_option c_status (find_claim d' cid) = Some READY_TO_FILE"
  using assms unfolding autoFileClaim_def
  by (auto simp: Let_def find_claim_update find_claim_update_purchase find_claim_add_notification
      split: option.splits sum.splits prod.splits)

lemma filer_fileClaimViaEmail_failure_is_ready_to_file:
  assumes "find_claim d (c_id c) = Some c1"
    and "filer_fileClaimViaEmail env now d c = (tried, Inr res, d')"
    and "\<not> fr_success res"
  shows "map_option c_status (find_claim d' (c_id c)) = Some READY_TO_FILE"
  using assms unfolding filer_fileClaimViaEmail_def claimService_autoFileClaim_def
  by (auto simp: Let_def find_claim_update find_claim_update_purchase find_claim_add_notification
      split: option.splits sum.splits prod.splits)

lemma claimService_autoFileClaim_failure_is_ready_to_file:
  assumes "find_claim d cid = Some c"
    and "claimService_autoFileClaim env now d cid = (tried, Inr res, d')"
    and "\<not> fr_success res"
  shows "map_option c_status (find_claim d' cid) = Some READY_TO_FILE"
  using assms unfolding claimService_autoFileClaim_def
  by (auto simp: Let_def find_claim_update find_claim_update_purchase find_claim_add_notification
      split: option.splits sum.splits prod.splits)

text \<open>
  Claim C9 at autoClaimService.fileClaimViaEmail. The draft claim is filed by the
  service while SendGrid is not configured. The send throws, the handler records the
  error in the status history and the response notes and rethrows, and the stored status
  is still DRAFT, not READY_TO_FILE.
\<close>

theorem service_fileClaimViaEmail_failure_leaves_draft:
  "map_option c_status (find_claim ex_db_claimed 1) = Some DRAFT
   \<and> fst (service_fileClaimViaEmail ex_env_no_mail 10 1 ex_db_claimed)
       = Inl (Error ''SendGrid not configured'')
   \<and> map_option c_status
        (find_claim (snd (service_fileClaimViaEmail ex_env_no_mail 10 1 ex_db_claimed)) 1)
       = Some DRAFT
   \<and> map_option (\<lambda>c. map h_status (statusHistory c))
        (find_claim (snd (service_fileClaimViaEmail ex_env_no_mail 10 1 ex_db_claimed)) 1)
       = Some [''ERROR'']"
  by code_simp

subsection \<open>The order of the channels\<close>















section \<open>Properties of the Card Matcher\<close>

lemma getProtectionDays_unknown: "getProtectionDays None = 90"
  by (simp add: getProtectionDays_def)

text \<open>
  Claim C8, as the code has it. When the last four digits match no card of the user and
  no pattern of the network table matches the message text, the card that
  matchCardToUser creates has issuer "Unknown", network "unknown" and card type OTHER,
  the fallback protection period of \<^verbatim>\<open>DEFAULT_PROTECTION_DAYS.default\<close>, which is 90
  days, and autoClaimEnabled true. The data it creates the card from names no maximum
  claim amount: the stored card has the default of the database column.
\<close>

theorem matchCardToUser_provisions_unknown_card:
  assumes "cardLast4 = Some l4" and "l4 \<noteq> []"
    and "find (\<lambda>c. lastFour c = l4) (filter (\<lambda>c. cc_userId c = userId) (creditCards d)) = None"
    and "detectCardNetwork body = None"
    and "matchCardToUser True schemaMaxClaim userId cardLast4 body d = (Some created, d')"
  shows "issuer created = ''Unknown'' \<and> network created = ''unknown''
         \<and> cardType created = ''OTHER'' \<and> protectionDays created = 90
         \<and> maxClaimAmount created = schemaMaxClaim \<and> autoClaimEnabled created
         \<and> lastFour created = l4 \<and> cc_userId created = userId
         \<and> creditCards d' = creditCards d @ [created]"
  using assms
  by (auto simp: matchCardToUser_def Let_def getProtectionDays_unknown detectedIssuer_def
      detectedNetworkName_def detectedCardType_def add_notification_def)

lemma ex_body_no_hint: "detectCardNetwork ''Paid with card ending in 4242'' = None"
  by code_simp

theorem matchCardToUser_provisions_unknown_card_witness:
  "find (\<lambda>c. lastFour c = ''4242'') (filter (\<lambda>c. cc_userId c = 1) (creditCards empty_db)) = None
   \<and> detectCardNetwork ''Paid with card ending in 4242'' = None
   \<and> map_option (\<lambda>c. (issuer c, network c, cardType c, protectionDays c, maxClaimAmount c,
                       autoClaimEnabled c, lastFour c))
        (fst (matchCardToUser True 250 1 (Some ''4242'') ''Paid with card ending in 4242'' empty_db))
       = Some (''Unknown'', ''unknown'', ''OTHER'', 90, 250, True, ''4242'')"
proof -
  let ?run = "matchCardToUser True 250 1 (Some ''4242'') ''Paid with card ending in 4242'' empty_db"
  have none: "find (\<lambda>c. lastFour c = ''4242'')
                (filter (\<lambda>c. cc_userId c = 1) (creditCards empty_db)) = None"
    by (simp add: empty_db_def)
  have "fst ?run \<noteq> None"
    by (simp add: matchCardToUser_def Let_def empty_db_def)
  then obtain created d' where run: "?run = (Some created, d')"
    by (cases ?run) auto
  have l4: "''4242'' \<noteq> []" by simp
  from matchCardToUser_provisions_unknown_card [OF refl l4 none ex_body_no_hint run]
  show ?thesis using none ex_body_no_hint run by simp
qed

text \<open>
  Against claim C8 as stated: the message "Paid with card ending in 4242" names no
  network or issuer, and the user has no card ending in 4242. The card created for it has
  issuer "Unknown" and 90 days of protection, not 60.
\<close>

theorem matchCardToUser_unknown_card_has_90_days:
  "detectCardNetwork ''Paid with card ending in 4242'' = None
   \<and> map_option issuer
        (fst (matchCardToUser True 250 1 (Some ''4242'') ''Paid with card ending in 4242'' empty_db))
       = Some ''Unknown''
   \<and> map_option protectionDays
        (fst (matchCardToUser True 250 1 (Some ''4242'') ''Paid with card ending in 4242'' empty_db))
       = Some 90
   \<and> (90::nat) \<noteq> 60"
proof -
  have "fst (matchCardToUser True 250 1 (Some ''4242'') ''Paid with card ending in 4242'' empty_db)
        \<noteq> None"
    by (simp add: matchCardToUser_def Let_def empty_db_def)
  then obtain created where
    c: "fst (matchCardToUser True 250 1 (Some ''4242'') ''Paid with card ending in 4242'' empty_db)
          = Some created"
    by blast
  have "issuer created = ''Unknown'' \<and> protectionDays created = 90"
    using c
    by (auto simp: matchCardToUser_def Let_def empty_db_def ex_body_no_hint
        getProtectionDays_unknown detectedIssuer_def)
  then show ?thesis using ex_body_no_hint c by simp
qed

end
